theory Spec2Isabelle
  imports Complex_Main "HOL-Library.Stream"
begin

section \<open>Conventions of the embedding\<close>

text \<open>
  The simulator is Python. Its floats are modelled as \<open>real\<close> and every decimal literal
  as the rational it denotes, its unbounded integers as \<open>int\<close>, list indices and particle
  types (they come from \<open>enumerate\<close> and \<open>range\<close>) as \<open>nat\<close>. A Python exception is a
  value \<open>Inl e\<close> of a sum type. Objects mutated in place are passed in and returned
  updated. The module-global random generator is an explicit stream of draws that every
  stochastic function takes and returns.
\<close>

datatype error = NameError | IndexError | ValueError | TypeError | ZeroDivisionError

definition ebind :: "error + 'a \<Rightarrow> ('a \<Rightarrow> error + 'b) \<Rightarrow> error + 'b" where
  "ebind m f = (case m of Inl e \<Rightarrow> Inl e | Inr v \<Rightarrow> f v)"

text \<open>\<open>xs[i]\<close> for a non-negative index: IndexError out of range.\<close>

definition getitem :: "'a list \<Rightarrow> nat \<Rightarrow> error + 'a" where
  "getitem xs i = (if i < length xs then Inr (xs ! i) else Inl IndexError)"

text \<open>\<open>math.sqrt\<close>: ValueError (math domain error) on a negative argument.\<close>

definition math_sqrt :: "real \<Rightarrow> error + real" where
  "math_sqrt v = (if v < 0 then Inl ValueError else Inr (sqrt v))"

subsection \<open>The random source\<close>

type_synonym rng = "real stream"

text \<open>\<open>random.random()\<close>: the next draw.\<close>

definition random_random :: "rng \<Rightarrow> real \<times> rng" where
  "random_random g = (shd g, stl g)"

text \<open>\<open>random.gauss(mu, sigma)\<close>: \<open>mu + z * sigma\<close> for the next standard deviate \<open>z\<close>.\<close>

definition random_gauss :: "real \<Rightarrow> real \<Rightarrow> rng \<Rightarrow> real \<times> rng" where
  "random_gauss mu sigma g = (mu + shd g * sigma, stl g)"

text \<open>\<open>random.choice(seq)\<close>: IndexError on an empty sequence, else the element the
  next draw selects.\<close>

definition random_choice :: "'a list \<Rightarrow> rng \<Rightarrow> error + ('a \<times> rng)" where
  "random_choice xs g =
     (if xs = [] then Inl IndexError
      else Inr (xs ! min (nat \<lfloor>shd g * real (length xs)\<rfloor>) (length xs - 1), stl g))"

section \<open>Data model (sim\_core.py, chemistry.py)\<close>

text \<open>class Particle: position, velocity, type and the adjacency list \<open>bonds\<close>.\<close>

record particle =
  p_x :: real
  p_y :: real
  p_vx :: real
  p_vy :: real
  p_type :: nat
  p_bonds :: "nat list"

text \<open>The three bond type tags the code produces: "covalent", "ionic", "metallic".\<close>

datatype bond_type = Covalent | Ionic | Metallic

text \<open>class Bond.\<close>

record bond =
  b_i :: nat
  b_j :: nat
  b_type :: bond_type
  b_order :: int
  b_length :: real
  b_dipole :: "real \<times> real"
  b_donor :: "nat option"
  b_acceptor :: "nat option"
  b_age :: int

text \<open>\<open>Bond(i, j, bond_type, order, length)\<close>: the constructor.\<close>

definition Bond :: "nat \<Rightarrow> nat \<Rightarrow> bond_type \<Rightarrow> int \<Rightarrow> real \<Rightarrow> bond" where
  "Bond i j bt ord' len =
     \<lparr>b_i = i, b_j = j, b_type = bt, b_order = ord', b_length = len,
      b_dipole = (0, 0), b_donor = None, b_acceptor = None, b_age = 0\<rparr>"

section \<open>physics.py\<close>

definition TIME_STEP :: real where "TIME_STEP = 0.2"
definition MAX_SPEED :: real where "MAX_SPEED = 9.5"
definition THERMOSTAT_STRENGTH :: real where "THERMOSTAT_STRENGTH = 0.02"
definition LANGEVIN_GAMMA :: real where "LANGEVIN_GAMMA = 0.04"
definition NONBONDED_REPULSION :: real where "NONBONDED_REPULSION = 140.0"
definition NONBONDED_SOFT_REPULSION :: real where "NONBONDED_SOFT_REPULSION = 6.0"
definition NONBONDED_RANGE :: real where "NONBONDED_RANGE = 42.0"
definition BOND_SPRING_CONSTANT :: real where "BOND_SPRING_CONSTANT = 0.32"
definition BOND_DAMPING :: real where "BOND_DAMPING = 0.03"
definition BOND_BREAK_THRESHOLD :: real where "BOND_BREAK_THRESHOLD = 1.9"
definition BOND_FORCE_CAP :: real where "BOND_FORCE_CAP = 6.5"
definition BOND_SOFTSTART_STEPS :: int where "BOND_SOFTSTART_STEPS = 12"
definition DIPOLE_STRENGTH :: real where "DIPOLE_STRENGTH = 0.22"
definition WORLD_WIDTH :: real where "WORLD_WIDTH = 800"
definition WORLD_HEIGHT :: real where "WORLD_HEIGHT = 800"

text \<open>
  The names bound at the top level of physics.py when one of its functions runs, in the
  order the module binds them, with the kind of value each holds. No other module assigns
  an attribute of physics, and none of Python's builtins is called \<open>bonding_factor\<close>.
\<close>

datatype pyval = PyNum real | PyFunction | PyModule

definition physics_globals :: "(string \<times> pyval) list" where
  "physics_globals =
     [(''math'', PyModule), (''random'', PyModule),
      (''DEFAULT_TEMPERATURE'', PyNum 1.0), (''TIME_STEP'', PyNum 0.2),
      (''MAX_SPEED'', PyNum 9.5), (''THERMOSTAT_STRENGTH'', PyNum 0.02),
      (''LANGEVIN_GAMMA'', PyNum 0.04), (''NONBONDED_REPULSION'', PyNum 140.0),
      (''NONBONDED_SOFT_REPULSION'', PyNum 6.0), (''NONBONDED_RANGE'', PyNum 42.0),
      (''BOND_SPRING_CONSTANT'', PyNum 0.32), (''BOND_DAMPING'', PyNum 0.03),
      (''BOND_BREAK_THRESHOLD'', PyNum 1.9), (''BOND_FORCE_CAP'', PyNum 6.5),
      (''BOND_SOFTSTART_STEPS'', PyNum 12), (''DIPOLE_STRENGTH'', PyNum 0.22),
      (''DIPOLE_VISUAL_SCALE'', PyNum 18.0), (''WORLD_WIDTH'', PyNum 800),
      (''WORLD_HEIGHT'', PyNum 800), (''wrap'', PyFunction), (''limit_speed'', PyFunction),
      (''compute_nonbonded_force'', PyFunction), (''compute_bond_force'', PyFunction),
      (''compute_dipole_torque'', PyFunction), (''apply_langevin'', PyFunction),
      (''rescale_velocities'', PyFunction), (''integrate'', PyFunction)]"

text \<open>Reading a global name: NameError when the module does not bind it.\<close>

definition load_global :: "string \<Rightarrow> error + pyval" where
  "load_global name =
     (case map_of physics_globals name of None \<Rightarrow> Inl NameError | Some v \<Rightarrow> Inr v)"

text \<open>\<open>float * value\<close>: TypeError unless the value is a number.\<close>

definition float_mul :: "real \<Rightarrow> pyval \<Rightarrow> error + real" where
  "float_mul a v = (case v of PyNum b \<Rightarrow> Inr (a * b) | _ \<Rightarrow> Inl TypeError)"

text \<open>wrap (physics.py 28-40).\<close>

definition wrap :: "real \<Rightarrow> real \<Rightarrow> real \<times> real" where
  "wrap dx dy =
     (let dx1 = (if dx > WORLD_WIDTH * 0.5 then dx - WORLD_WIDTH
                 else if dx < - WORLD_WIDTH * 0.5 then dx + WORLD_WIDTH else dx);
          dy1 = (if dy > WORLD_HEIGHT * 0.5 then dy - WORLD_HEIGHT
                 else if dy < - WORLD_HEIGHT * 0.5 then dy + WORLD_HEIGHT else dy)
      in (dx1, dy1))"

text \<open>limit\_speed (physics.py 43-48), with the default \<open>max_speed\<close> as a parameter.\<close>

definition limit_speed :: "real \<Rightarrow> real \<Rightarrow> real \<Rightarrow> real \<times> real" where
  "limit_speed vx vy max_speed =
     (let v2 = vx * vx + vy * vy in
      if v2 > max_speed * max_speed
      then (let s = max_speed / sqrt v2 in (vx * s, vy * s))
      else (vx, vy))"

text \<open>compute\_nonbonded\_force (physics.py 50-72).\<close>

definition compute_nonbonded_force :: "particle \<Rightarrow> particle \<Rightarrow> real \<times> real" where
  "compute_nonbonded_force p_i p_j =
     (case wrap (p_x p_j - p_x p_i) (p_y p_j - p_y p_i) of (dx, dy) \<Rightarrow>
      let r2 = dx * dx + dy * dy in
      if r2 < 1 / 10 ^ 9 then (0, 0)
      else let r = sqrt r2 in
        if r > NONBONDED_RANGE then (0, 0)
        else let nx = dx / r; ny = dy / r in
          if r < 7.5 then (let F = NONBONDED_REPULSION / (r2 + 0.08) in (- nx * F, - ny * F))
          else (let rep = NONBONDED_SOFT_REPULSION / r; F = - rep in (nx * F, ny * F)))"

text \<open>The soft-start factor computed in compute\_bond\_force (physics.py 87-89).\<close>

definition soften :: "bond \<Rightarrow> real" where
  "soften b =
     (if b_age b < BOND_SOFTSTART_STEPS
      then real_of_int (b_age b + 1) / real_of_int BOND_SOFTSTART_STEPS
      else 1.0)"

text \<open>compute\_bond\_force (physics.py 74-114).\<close>

definition compute_bond_force :: "particle \<Rightarrow> particle \<Rightarrow> bond \<Rightarrow> real \<times> real \<times> bool" where
  "compute_bond_force p_i p_j b =
     (case wrap (p_x p_j - p_x p_i) (p_y p_j - p_y p_i) of (dx, dy) \<Rightarrow>
      let r2 = dx * dx + dy * dy in
      if r2 < 1 / 10 ^ 9 then (0, 0, False)
      else
        let r = sqrt r2; nx = dx / r; ny = dy / r;
            k_eff = BOND_SPRING_CONSTANT * real_of_int (b_order b) * soften b;
            cooper = 1.0 + 0.18 * real (min (length (p_bonds p_i)) (length (p_bonds p_j)));
            k_eff1 = k_eff * cooper;
            stretch = r - b_length b;
            F_spring = k_eff1 * stretch;
            dvx = p_vx p_j - p_vx p_i;
            dvy = p_vy p_j - p_vy p_i;
            F_damp = BOND_DAMPING * (dvx * nx + dvy * ny) * real_of_int (b_order b);
            F_total = F_spring + F_damp;
            F_capped = (if F_total > BOND_FORCE_CAP then BOND_FORCE_CAP
                        else if F_total < - BOND_FORCE_CAP then - BOND_FORCE_CAP
                        else F_total);
            fx = nx * F_capped;
            fy = ny * F_capped;
            broken = (r > b_length b * BOND_BREAK_THRESHOLD)
        in (fx, fy, broken))"

text \<open>compute\_dipole\_torque (physics.py 116-140).\<close>

definition compute_dipole_torque ::
  "particle \<Rightarrow> particle \<Rightarrow> real \<times> real \<Rightarrow> real \<times> real \<times> real \<times> real" where
  "compute_dipole_torque p_i p_j dipole_vector =
     (case wrap (p_x p_j - p_x p_i) (p_y p_j - p_y p_i) of (dx, dy) \<Rightarrow>
      let r2 = dx * dx + dy * dy in
      if r2 < 1 / 10 ^ 9 then (0, 0, 0, 0)
      else
        let r = sqrt r2; nx = dx / r; ny = dy / r;
            tx = - ny; ty = nx;
            desired = fst dipole_vector * tx + snd dipole_vector * ty;
            torque = desired * DIPOLE_STRENGTH;
            fx_i = tx * torque; fy_i = ty * torque;
            fx_j = - fx_i; fy_j = - fy_i
        in (fx_i, fy_i, fx_j, fy_j))"

text \<open>
  apply\_langevin (physics.py 142-149). The right-hand side of line 146 evaluates
  \<open>math.sqrt(...)\<close> first, then reads the global \<open>bonding_factor\<close>, then multiplies.
\<close>

definition apply_langevin ::
  "particle \<Rightarrow> real \<Rightarrow> nat \<Rightarrow> real \<Rightarrow> rng \<Rightarrow> error + (particle \<times> rng)" where
  "apply_langevin p temperature bond_count avg_bond_order g =
     (let gamma = LANGEVIN_GAMMA in
      ebind (math_sqrt (2.0 * gamma * temperature)) (\<lambda>root.
      ebind (load_global ''bonding_factor'') (\<lambda>bonding_factor.
      ebind (float_mul root bonding_factor) (\<lambda>sigma.
        case random_gauss 0.0 sigma g of (n1, g1) \<Rightarrow>
        let p1 = p\<lparr>p_vx := p_vx p + (- gamma * p_vx p + n1)\<rparr> in
        case random_gauss 0.0 sigma g1 of (n2, g2) \<Rightarrow>
        let p2 = p1\<lparr>p_vy := p_vy p1 + (- gamma * p_vy p1 + n2)\<rparr> in
        Inr (p2, g2)))))"

text \<open>rescale\_velocities (physics.py 152-169).\<close>

definition rescale_velocities :: "particle list \<Rightarrow> real \<Rightarrow> error + particle list" where
  "rescale_velocities particles temperature =
     (if particles = [] then Inr particles
      else
        let Ek = fold (\<lambda>p acc. acc + (p_vx p * p_vx p + p_vy p * p_vy p)) particles 0.0;
            T_current = Ek / real (length particles)
        in if T_current < 1 / 10 ^ 9 then Inr particles
           else ebind (math_sqrt (temperature / T_current)) (\<lambda>scale_target.
             let scale = 1.0 + (scale_target - 1.0) * THERMOSTAT_STRENGTH in
             Inr (map (\<lambda>p. p\<lparr>p_vx := p_vx p * scale, p_vy := p_vy p * scale\<rparr>) particles)))"

text \<open>integrate, first loop (physics.py 175-180): the kick and the speed clamp. The
  first argument is the index \<open>enumerate\<close> has reached.\<close>

fun integrate_kick ::
  "nat \<Rightarrow> particle list \<Rightarrow> (real \<times> real) list \<Rightarrow> error + particle list" where
  "integrate_kick i [] forces = Inr []"
| "integrate_kick i (p # ps) forces =
     ebind (getitem forces i) (\<lambda>(fx, fy).
       let p1 = p\<lparr>p_vx := p_vx p + fx * TIME_STEP\<rparr>;
           p2 = p1\<lparr>p_vy := p_vy p1 + fy * TIME_STEP\<rparr>
       in case limit_speed (p_vx p2) (p_vy p2) MAX_SPEED of (vx, vy) \<Rightarrow>
          ebind (integrate_kick (Suc i) ps forces) (\<lambda>rest.
            Inr (p2\<lparr>p_vx := vx, p_vy := vy\<rparr> # rest)))"

text \<open>integrate, second loop (physics.py 182-188): the Langevin term.\<close>

fun integrate_langevin ::
  "particle list \<Rightarrow> real \<Rightarrow> rng \<Rightarrow> error + (particle list \<times> rng)" where
  "integrate_langevin [] temperature g = Inr ([], g)"
| "integrate_langevin (p # ps) temperature g =
     (let bond_count = length (p_bonds p);
          avg_order = (if bond_count = 0 then 0.0 else 1.5)
      in ebind (apply_langevin p temperature bond_count avg_order g) (\<lambda>(p1, g1).
         ebind (integrate_langevin ps temperature g1) (\<lambda>(rest, g2).
           Inr (p1 # rest, g2))))"

text \<open>integrate, third loop (physics.py 192-204): the drift and the wrap of positions.\<close>

definition integrate_move :: "particle \<Rightarrow> particle" where
  "integrate_move p =
     (let p1 = p\<lparr>p_x := p_x p + p_vx p * TIME_STEP\<rparr>;
          p2 = p1\<lparr>p_y := p_y p1 + p_vy p1 * TIME_STEP\<rparr>;
          p3 = (if p_x p2 < 0 then p2\<lparr>p_x := p_x p2 + WORLD_WIDTH\<rparr>
                else if p_x p2 \<ge> WORLD_WIDTH then p2\<lparr>p_x := p_x p2 - WORLD_WIDTH\<rparr>
                else p2)
      in if p_y p3 < 0 then p3\<lparr>p_y := p_y p3 + WORLD_HEIGHT\<rparr>
         else if p_y p3 \<ge> WORLD_HEIGHT then p3\<lparr>p_y := p_y p3 - WORLD_HEIGHT\<rparr>
         else p3)"

text \<open>integrate (physics.py 172-204).\<close>

definition integrate ::
  "particle list \<Rightarrow> (real \<times> real) list \<Rightarrow> real \<Rightarrow> rng \<Rightarrow> error + (particle list \<times> rng)" where
  "integrate particles forces temperature g =
     ebind (integrate_kick 0 particles forces) (\<lambda>ps1.
     ebind (integrate_langevin ps1 temperature g) (\<lambda>(ps2, g1).
     ebind (rescale_velocities ps2 temperature) (\<lambda>ps3.
       Inr (map integrate_move ps3, g1))))"

section \<open>chemistry.py\<close>

definition TARGET_SHELL :: real where "TARGET_SHELL = 5"
definition VALENCE_ELECTRONS :: "real list" where "VALENCE_ELECTRONS = [1, 2, 3, 4, 5]"
definition ELECTRONEG :: "real list" where "ELECTRONEG = [1.0, 1.6, 2.1, 2.6, 3.1]"

text \<open>The entries of the dictionary TYPE\_PREF, and the dictionary keyed by type.\<close>

record pref =
  max_bonds :: int
  mode :: string
  prefer_multiple :: bool
  prefer_branch :: bool

definition TYPE_PREF :: "nat \<Rightarrow> pref option" where
  "TYPE_PREF = map_of
     [(0, \<lparr>max_bonds = 1, mode = ''terminal'', prefer_multiple = False, prefer_branch = False\<rparr>),
      (1, \<lparr>max_bonds = 2, mode = ''linear'', prefer_multiple = False, prefer_branch = False\<rparr>),
      (2, \<lparr>max_bonds = 3, mode = ''branched'', prefer_multiple = False, prefer_branch = True\<rparr>),
      (3, \<lparr>max_bonds = 4, mode = ''multi'', prefer_multiple = True, prefer_branch = True\<rparr>),
      (4, \<lparr>max_bonds = 1, mode = ''inertish'', prefer_multiple = False, prefer_branch = False\<rparr>)]"

text \<open>\<open>TYPE_PREF.get(t, {}).get(key)\<close> for a boolean key: a missing entry gives None,
  which the conditions read as false.\<close>

definition pref_get :: "(pref \<Rightarrow> bool) \<Rightarrow> nat \<Rightarrow> bool" where
  "pref_get key t = (case TYPE_PREF t of None \<Rightarrow> False | Some pr \<Rightarrow> key pr)"

definition MAX_BONDS_BASE :: int where "MAX_BONDS_BASE = 4"
definition T_GEOM_MAX :: real where "T_GEOM_MAX = 0.9"
definition T_IONIC_MIN :: real where "T_IONIC_MIN = 1.6"
definition CAPTURE_RADIUS :: real where "CAPTURE_RADIUS = 34.0"
definition BOND_FORM_RADIUS :: real where "BOND_FORM_RADIUS = 26.0"
definition REL_V2_BASE :: real where "REL_V2_BASE = 6.0"
definition REL_V2_STABIL_BONUS :: real where "REL_V2_STABIL_BONUS = 8.0"
definition P_BOND_BASE :: real where "P_BOND_BASE = 0.28"
definition P_BOND_DEFICIT_GAIN :: real where "P_BOND_DEFICIT_GAIN = 0.16"
definition P_BOND_LOW_T_BOOST :: real where "P_BOND_LOW_T_BOOST = 0.20"
definition P_BOND_HIGH_T_BOOST :: real where "P_BOND_HIGH_T_BOOST = 0.10"
definition P_DISSOC_BASE :: real where "P_DISSOC_BASE = 0.005"
definition P_DISSOC_HIGH_T :: real where "P_DISSOC_HIGH_T = 0.05"

text \<open>shell\_fill, the loop over the ledger (chemistry.py 54-66).\<close>

fun shell_fill_loop :: "nat \<Rightarrow> bond list \<Rightarrow> real \<Rightarrow> real" where
  "shell_fill_loop p_idx [] fill = fill"
| "shell_fill_loop p_idx (b # bs) fill =
     (if b_i b \<noteq> p_idx \<and> b_j b \<noteq> p_idx then shell_fill_loop p_idx bs fill
      else if b_type b = Covalent
        then shell_fill_loop p_idx bs (fill + real_of_int (b_order b))
      else if b_type b = Ionic
        then (if b_acceptor b = Some p_idx
                then shell_fill_loop p_idx bs (fill + real_of_int (b_order b))
              else if b_donor b = Some p_idx
                then shell_fill_loop p_idx bs (fill - real_of_int (b_order b))
              else shell_fill_loop p_idx bs fill)
      else if b_type b = Metallic
        then shell_fill_loop p_idx bs (fill + 0.5 * real_of_int (b_order b))
      else shell_fill_loop p_idx bs fill)"

text \<open>shell\_fill (chemistry.py 50-68).\<close>

definition shell_fill :: "nat \<Rightarrow> particle list \<Rightarrow> bond list \<Rightarrow> error + real" where
  "shell_fill p_idx particles bonds =
     ebind (getitem particles p_idx) (\<lambda>p.
     ebind (getitem VALENCE_ELECTRONS (p_type p)) (\<lambda>fill.
       Inr (shell_fill_loop p_idx bonds fill)))"

text \<open>shell\_deficit (chemistry.py 71-72).\<close>

definition shell_deficit :: "nat \<Rightarrow> particle list \<Rightarrow> bond list \<Rightarrow> error + real" where
  "shell_deficit p_idx particles bonds =
     ebind (shell_fill p_idx particles bonds) (\<lambda>fill. Inr (max 0.0 (TARGET_SHELL - fill)))"

text \<open>dynamic\_max\_bonds (chemistry.py 75-81).\<close>

definition dynamic_max_bonds :: "nat \<Rightarrow> particle list \<Rightarrow> bond list \<Rightarrow> error + int" where
  "dynamic_max_bonds p_idx particles bonds =
     ebind (getitem particles p_idx) (\<lambda>p.
       let base = (case TYPE_PREF (p_type p) of None \<Rightarrow> MAX_BONDS_BASE
                   | Some pr \<Rightarrow> max_bonds pr)
       in ebind (shell_deficit p_idx particles bonds) (\<lambda>d.
            let extra = \<lceil>d * 0.7\<rceil> in Inr (max 0 (min 5 (base + extra)))))"

text \<open>classify\_bond\_type\_temp (chemistry.py 83-97).\<close>

definition classify_bond_type_temp :: "particle \<Rightarrow> particle \<Rightarrow> real \<Rightarrow> error + bond_type" where
  "classify_bond_type_temp p_i p_j temperature =
     ebind (getitem ELECTRONEG (p_type p_i)) (\<lambda>e_i.
     ebind (getitem ELECTRONEG (p_type p_j)) (\<lambda>e_j.
       let diff = \<bar>e_i - e_j\<bar> in
       if temperature \<le> T_GEOM_MAX then Inr (if diff < 1.6 then Covalent else Ionic)
       else if temperature \<ge> T_IONIC_MIN then Inr (if diff > 0.9 then Ionic else Metallic)
       else if diff < 0.35 then Inr Metallic
       else if diff < 1.2 then Inr Covalent
       else Inr Ionic))"

text \<open>dipole\_from\_EN (chemistry.py 99-109).\<close>

definition dipole_from_EN :: "particle \<Rightarrow> particle \<Rightarrow> error + (real \<times> real)" where
  "dipole_from_EN p_i p_j =
     ebind (getitem ELECTRONEG (p_type p_i)) (\<lambda>e1.
     ebind (getitem ELECTRONEG (p_type p_j)) (\<lambda>e2.
       case wrap (p_x p_j - p_x p_i) (p_y p_j - p_y p_i) of (dx, dy) \<Rightarrow>
       let r2 = dx * dx + dy * dy in
       if r2 < 1 / 10 ^ 9 then Inr (0.0, 0.0)
       else let r = sqrt r2; nx = dx / r; ny = dy / r in
         Inr (if e2 > e1 then (nx, ny) else (- nx, - ny))))"

text \<open>prebond\_damp, the four velocity updates (chemistry.py 134-137), written to the
  particle list in the source's order, each particle read again after a write.\<close>

definition nudge_velocities ::
  "nat \<Rightarrow> nat \<Rightarrow> real \<Rightarrow> real \<Rightarrow> real \<Rightarrow> particle list \<Rightarrow> particle list" where
  "nudge_velocities i j rvx rvy capture particles =
     (let ps1 = particles[i := (particles ! i)\<lparr>p_vx := p_vx (particles ! i) + rvx * capture * 0.5\<rparr>];
          ps2 = ps1[i := (ps1 ! i)\<lparr>p_vy := p_vy (ps1 ! i) + rvy * capture * 0.5\<rparr>];
          ps3 = ps2[j := (ps2 ! j)\<lparr>p_vx := p_vx (ps2 ! j) - rvx * capture * 0.5\<rparr>];
          ps4 = ps3[j := (ps3 ! j)\<lparr>p_vy := p_vy (ps3 ! j) - rvy * capture * 0.5\<rparr>]
      in ps4)"

text \<open>prebond\_damp (chemistry.py 111-137).\<close>

definition prebond_damp ::
  "nat \<Rightarrow> nat \<Rightarrow> particle list \<Rightarrow> bond list \<Rightarrow> real \<Rightarrow> error + particle list" where
  "prebond_damp i j particles bonds temperature =
     ebind (getitem particles i) (\<lambda>p_i.
     ebind (getitem particles j) (\<lambda>p_j.
     ebind (shell_deficit i particles bonds) (\<lambda>di.
     ebind (shell_deficit j particles bonds) (\<lambda>dj.
       if di \<le> 0 \<and> dj \<le> 0 then Inr particles
       else
         case wrap (p_x p_j - p_x p_i) (p_y p_j - p_y p_i) of (dx, dy) \<Rightarrow>
         let r2 = dx * dx + dy * dy in
         if r2 > CAPTURE_RADIUS * CAPTURE_RADIUS then Inr particles
         else
           let deficit_factor = min 1.0 ((di + dj) / 5.0);
               temp_factor = (if temperature \<le> T_GEOM_MAX then 1.0 else 0.6);
               capture = 0.25 * deficit_factor * temp_factor;
               rvx = p_vx p_j - p_vx p_i;
               rvy = p_vy p_j - p_vy p_i
           in Inr (nudge_velocities i j rvx rvy capture particles)))))"

text \<open>try\_form\_bond, the choice of the bond order (chemistry.py 187-200).\<close>

definition choose_order ::
  "bond_type \<Rightarrow> real \<Rightarrow> real \<Rightarrow> bool \<Rightarrow> rng \<Rightarrow> int \<times> rng" where
  "choose_order bt temperature dsum prefer_multi g =
     (if bt = Covalent then
        (case (if temperature \<le> T_GEOM_MAX \<and> dsum \<ge> 3
               then (let base_prob2 = (if prefer_multi then 0.35 + 0.20 else 0.35) in
                     case random_random g of (u, g1) \<Rightarrow>
                       (if u < base_prob2 then (2, g1) else (1, g1)))
               else (1, g))
         of (order1, g1) \<Rightarrow>
           if temperature \<le> T_GEOM_MAX \<and> dsum \<ge> 5 \<and> order1 = 2
           then (let base_prob3 = (if prefer_multi then 0.18 else 0.08) in
                 case random_random g1 of (u, g2) \<Rightarrow>
                   (if u < base_prob3 then (3, g2) else (order1, g2)))
           else (order1, g1))
      else (1, g))"

text \<open>try\_form\_bond, the initial equilibrium length (chemistry.py 203-208).\<close>

definition initial_length :: "bond_type \<Rightarrow> real \<Rightarrow> real" where
  "initial_length bt r =
     (if bt = Covalent then max 12.5 (min 18.0 r)
      else if bt = Ionic then max 14.0 (min 21.0 r)
      else max 15.0 (min 22.0 r))"

text \<open>try\_form\_bond, the formation probability (chemistry.py 169-180).\<close>

definition formation_probability :: "particle \<Rightarrow> particle \<Rightarrow> real \<Rightarrow> real \<Rightarrow> real" where
  "formation_probability p_i p_j dsum temperature =
     (let p_form0 = P_BOND_BASE + P_BOND_DEFICIT_GAIN * dsum;
          p_form1 = (if temperature \<le> T_GEOM_MAX then p_form0 + P_BOND_LOW_T_BOOST
                     else if temperature \<ge> T_IONIC_MIN then p_form0 + P_BOND_HIGH_T_BOOST
                     else p_form0)
      in if pref_get prefer_branch (p_type p_i) \<or> pref_get prefer_branch (p_type p_j)
         then p_form1 + 0.08 else p_form1)"

text \<open>try\_form\_bond, the new Bond object with its length, dipole and ionic roles
  (chemistry.py 202-217).\<close>

definition new_bond ::
  "nat \<Rightarrow> nat \<Rightarrow> particle \<Rightarrow> particle \<Rightarrow> bond_type \<Rightarrow> int \<Rightarrow> real \<Rightarrow> error + bond" where
  "new_bond i j p_i p_j bt order' r2 =
     ebind (math_sqrt r2) (\<lambda>r.
       let len = initial_length bt r;
           b0 = Bond i j bt order' len
       in
       ebind (dipole_from_EN p_i p_j) (\<lambda>dip.
         let b1 = b0\<lparr>b_dipole := dip\<rparr> in
         if bt = Ionic
         then ebind (getitem ELECTRONEG (p_type p_i)) (\<lambda>e_i.
              ebind (getitem ELECTRONEG (p_type p_j)) (\<lambda>e_j.
                Inr (if e_i > e_j
                     then b1\<lparr>b_donor := Some j, b_acceptor := Some i\<rparr>
                     else b1\<lparr>b_donor := Some i, b_acceptor := Some j\<rparr>)))
         else Inr b1))"

text \<open>try\_form\_bond, the three appends that commit the bond (chemistry.py 219-221): the
  second endpoint is read after the first was written.\<close>

definition append_bond ::
  "nat \<Rightarrow> nat \<Rightarrow> bond \<Rightarrow> particle list \<Rightarrow> bond list \<Rightarrow> particle list \<times> bond list" where
  "append_bond i j b particles bonds =
     (let bonds1 = bonds @ [b];
          ps1 = particles[i := (particles ! i)\<lparr>p_bonds := p_bonds (particles ! i) @ [j]\<rparr>];
          ps2 = ps1[j := (ps1 ! j)\<lparr>p_bonds := p_bonds (ps1 ! j) @ [i]\<rparr>]
      in (ps2, bonds1))"

text \<open>try\_form\_bond (chemistry.py 139-222). The result is the returned boolean with
  the particle list, the ledger and the random source as the call leaves them.\<close>

definition try_form_bond ::
  "nat \<Rightarrow> nat \<Rightarrow> particle list \<Rightarrow> bond list \<Rightarrow> real \<Rightarrow> rng \<Rightarrow>
   error + (bool \<times> particle list \<times> bond list \<times> rng)" where
  "try_form_bond i j particles bonds temperature g =
     ebind (getitem particles i) (\<lambda>p_i.
     ebind (getitem particles j) (\<lambda>p_j.
     ebind (dynamic_max_bonds i particles bonds) (\<lambda>max_i.
     if int (length (p_bonds p_i)) \<ge> max_i then Inr (False, particles, bonds, g)
     else
     ebind (dynamic_max_bonds j particles bonds) (\<lambda>max_j.
     if int (length (p_bonds p_j)) \<ge> max_j then Inr (False, particles, bonds, g)
     else
     ebind (shell_deficit i particles bonds) (\<lambda>di.
     ebind (shell_deficit j particles bonds) (\<lambda>dj.
     if di \<le> 0 \<and> dj \<le> 0 then Inr (False, particles, bonds, g)
     else
       case wrap (p_x p_j - p_x p_i) (p_y p_j - p_y p_i) of (dx, dy) \<Rightarrow>
       let r2 = dx * dx + dy * dy in
       if r2 > BOND_FORM_RADIUS * BOND_FORM_RADIUS then Inr (False, particles, bonds, g)
       else
         let rvx = p_vx p_j - p_vx p_i;
             rvy = p_vy p_j - p_vy p_i;
             relv2 = rvx * rvx + rvy * rvy;
             stabil_bonus = REL_V2_STABIL_BONUS * (di + dj) / 3.5;
             relv2_limit = REL_V2_BASE * temperature + stabil_bonus
         in
         if relv2 > relv2_limit then Inr (False, particles, bonds, g)
         else
           let p_form = formation_probability p_i p_j (di + dj) temperature in
           case random_random g of (u, g1) \<Rightarrow>
           if u > min 0.97 p_form then Inr (False, particles, bonds, g1)
           else
             ebind (classify_bond_type_temp p_i p_j temperature) (\<lambda>bt.
               let prefer_multi = (pref_get prefer_multiple (p_type p_i)
                                   \<or> pref_get prefer_multiple (p_type p_j))
               in
               case choose_order bt temperature (di + dj) prefer_multi g1 of (order', g2) \<Rightarrow>
               ebind (new_bond i j p_i p_j bt order' r2) (\<lambda>b.
                 case append_bond i j b particles bonds of (ps2, bonds1) \<Rightarrow>
                   Inr (True, ps2, bonds1, g2)))))))))"

text \<open>try\_break\_bond (chemistry.py 224-251).\<close>

definition try_break_bond :: "bond \<Rightarrow> particle list \<Rightarrow> real \<Rightarrow> error + bool" where
  "try_break_bond b particles temperature =
     ebind (getitem particles (b_i b)) (\<lambda>p_i.
     ebind (getitem particles (b_j b)) (\<lambda>p_j.
       case wrap (p_x p_j - p_x p_i) (p_y p_j - p_y p_i) of (dx, dy) \<Rightarrow>
       let r2 = dx * dx + dy * dy in
       ebind (math_sqrt r2) (\<lambda>r.
         if r > b_length b * BOND_BREAK_THRESHOLD * (1.0 + 0.2 * real_of_int (b_order b - 1))
         then Inr True
         else
           let rvx = p_vx p_j - p_vx p_i;
               rvy = p_vy p_j - p_vy p_i;
               relv2 = rvx * rvx + rvy * rvy;
               base0 = (if b_type b = Covalent then 18.0 else 12.0);
               base1 = (if temperature \<ge> T_IONIC_MIN \<and> b_type b \<noteq> Covalent
                        then base0 * 0.7 else base0);
               cluster_factor =
                 1.0 + 0.2 * real (min (length (p_bonds p_i)) (length (p_bonds p_j)));
               base = base1 * cluster_factor
           in if relv2 > base * temperature * real_of_int (b_order b) then Inr True
              else Inr False)))"

text \<open>remove\_bond\_between, the scan of the ledger (chemistry.py 310-313): the first
  bond between the two particles, in either orientation, is popped.\<close>

fun pop_first_between :: "nat \<Rightarrow> nat \<Rightarrow> bond list \<Rightarrow> bond list" where
  "pop_first_between i j [] = []"
| "pop_first_between i j (b # bs) =
     (if (b_i b = i \<and> b_j b = j) \<or> (b_i b = j \<and> b_j b = i) then bs
      else b # pop_first_between i j bs)"

text \<open>remove\_bond\_between (chemistry.py 309-318). \<open>list.remove(v)\<close> deletes the first
  occurrence, which is \<open>remove1\<close>.\<close>

definition remove_bond_between ::
  "nat \<Rightarrow> nat \<Rightarrow> bond list \<Rightarrow> particle list \<Rightarrow> error + (bond list \<times> particle list)" where
  "remove_bond_between i j bonds particles =
     (let bonds1 = pop_first_between i j bonds in
      ebind (getitem particles i) (\<lambda>p_i.
        let ps1 = (if j \<in> set (p_bonds p_i)
                   then particles[i := p_i\<lparr>p_bonds := remove1 j (p_bonds p_i)\<rparr>]
                   else particles)
        in ebind (getitem ps1 j) (\<lambda>p_j.
             let ps2 = (if i \<in> set (p_bonds p_j)
                        then ps1[j := p_j\<lparr>p_bonds := remove1 i (p_bonds p_j)\<rparr>]
                        else ps1)
             in Inr (bonds1, ps2))))"

text \<open>reaction\_addition (chemistry.py 253-258).\<close>

definition reaction_addition ::
  "nat \<Rightarrow> nat \<Rightarrow> bond list \<Rightarrow> particle list \<Rightarrow> real \<Rightarrow> rng \<Rightarrow>
   error + (bool \<times> particle list \<times> bond list \<times> rng)" where
  "reaction_addition i j bonds particles temperature g =
     ebind (getitem particles i) (\<lambda>p_i.
     ebind (getitem particles j) (\<lambda>p_j.
       if (length (p_bonds p_i) > 0) \<noteq> (length (p_bonds p_j) > 0)
       then try_form_bond i j particles bonds temperature g
       else Inr (False, particles, bonds, g)))"

text \<open>reaction\_substitution, the search for the weakest bonded neighbour
  (chemistry.py 272-278): the accumulator is \<open>(weakest_k, weakest_en)\<close>.\<close>

fun weakest_loop ::
  "nat list \<Rightarrow> particle list \<Rightarrow> nat option \<times> real \<Rightarrow> error + (nat option \<times> real)" where
  "weakest_loop [] particles acc = Inr acc"
| "weakest_loop (k # ks) particles (weakest_k, weakest_en) =
     ebind (getitem particles k) (\<lambda>p_k.
     ebind (getitem ELECTRONEG (p_type p_k)) (\<lambda>e_k.
       if e_k < weakest_en then weakest_loop ks particles (Some k, e_k)
       else weakest_loop ks particles (weakest_k, weakest_en)))"

text \<open>reaction\_substitution (chemistry.py 261-287).\<close>

definition reaction_substitution ::
  "nat \<Rightarrow> nat \<Rightarrow> bond list \<Rightarrow> particle list \<Rightarrow> real \<Rightarrow> rng \<Rightarrow>
   error + (bool \<times> particle list \<times> bond list \<times> rng)" where
  "reaction_substitution i j bonds particles temperature g =
     (if temperature < 1.05 then Inr (False, particles, bonds, g)
      else
        ebind (getitem particles i) (\<lambda>p_i.
        ebind (getitem particles j) (\<lambda>p_j.
          if length (p_bonds p_i) = 0 then Inr (False, particles, bonds, g)
          else
            ebind (getitem ELECTRONEG (p_type p_j)) (\<lambda>e_j.
            ebind (weakest_loop (p_bonds p_i) particles (None, 999)) (\<lambda>(weakest_k, weakest_en).
              case weakest_k of
                None \<Rightarrow> Inr (False, particles, bonds, g)
              | Some k \<Rightarrow>
                  if e_j > weakest_en + 0.10
                  then ebind (remove_bond_between i k bonds particles) (\<lambda>(bonds1, ps1).
                         try_form_bond i j ps1 bonds1 temperature g)
                  else Inr (False, particles, bonds, g))))))"

text \<open>reaction\_dissociation (chemistry.py 290-306).\<close>

definition reaction_dissociation ::
  "nat \<Rightarrow> bond list \<Rightarrow> particle list \<Rightarrow> real \<Rightarrow> rng \<Rightarrow>
   error + (bool \<times> particle list \<times> bond list \<times> rng)" where
  "reaction_dissociation i bonds particles temperature g =
     ebind (getitem particles i) (\<lambda>p_i.
       if length (p_bonds p_i) \<le> 1 then Inr (False, particles, bonds, g)
       else
         let prob0 = P_DISSOC_BASE;
             prob1 = (if temperature \<ge> T_IONIC_MIN
                      then prob0 + P_DISSOC_HIGH_T * (temperature - T_IONIC_MIN) else prob0);
             prob = prob1 / (1.0 + 0.6 * (real (length (p_bonds p_i)) - 1))
         in
         case random_random g of (u, g1) \<Rightarrow>
         if u < min 0.5 prob
         then ebind (random_choice (p_bonds p_i) g1) (\<lambda>(k, g2).
              ebind (remove_bond_between i k bonds particles) (\<lambda>(bonds1, ps1).
                Inr (True, ps1, bonds1, g2)))
         else Inr (False, particles, bonds, g1))"

section \<open>sim\_core.py\<close>

subsection \<open>SpatialGrid\<close>

text \<open>class SpatialGrid: the cell size and the dictionary from cell coordinates to the
  list of particle indices in the cell.\<close>

record SpatialGrid =
  cell_size :: real
  grid :: "int \<times> int \<Rightarrow> nat list option"

text \<open>\<open>int(v // cell_size)\<close>: float floor division, ZeroDivisionError on a zero divisor.\<close>

definition cell_coord :: "real \<Rightarrow> real \<Rightarrow> error + int" where
  "cell_coord v c = (if c = 0 then Inl ZeroDivisionError else Inr \<lfloor>v / c\<rfloor>)"

text \<open>SpatialGrid.clear (sim\_core.py 41-42).\<close>

definition grid_clear :: "SpatialGrid \<Rightarrow> SpatialGrid" where
  "grid_clear sg = sg\<lparr>grid := (\<lambda>cell. None)\<rparr>"

text \<open>SpatialGrid.insert (sim\_core.py 44-47).\<close>

definition grid_insert :: "SpatialGrid \<Rightarrow> nat \<Rightarrow> real \<Rightarrow> real \<Rightarrow> error + SpatialGrid" where
  "grid_insert sg idx x y =
     ebind (cell_coord x (cell_size sg)) (\<lambda>cx.
     ebind (cell_coord y (cell_size sg)) (\<lambda>cy.
       let old = (case grid sg (cx, cy) of None \<Rightarrow> [] | Some l \<Rightarrow> l) in
       Inr (sg\<lparr>grid := (grid sg)((cx, cy) \<mapsto> old @ [idx])\<rparr>)))"

text \<open>SpatialGrid.neighbors (sim\_core.py 49-57): the indices the generator yields, in
  the order it yields them.\<close>

definition neighbors :: "SpatialGrid \<Rightarrow> real \<Rightarrow> real \<Rightarrow> error + nat list" where
  "neighbors sg x y =
     ebind (cell_coord x (cell_size sg)) (\<lambda>cx.
     ebind (cell_coord y (cell_size sg)) (\<lambda>cy.
       Inr (concat (map (\<lambda>(dx, dy). case grid sg (cx + dx, cy + dy) of
                                        None \<Rightarrow> [] | Some l \<Rightarrow> l)
                        (List.product [- 1, 0, 1] [- 1, 0, 1])))))"

subsection \<open>Simulation\<close>

text \<open>class Simulation: the fields \<open>temperature\<close>, \<open>n_types\<close>, \<open>particles\<close>, \<open>bonds\<close> and \<open>grid\<close>.\<close>

record Simulation =
  sim_temperature :: real
  sim_n_types :: nat
  sim_particles :: "particle list"
  sim_bonds :: "bond list"
  sim_grid :: SpatialGrid

text \<open>\<open>random.uniform(a, b)\<close> is \<open>a + (b - a) * random()\<close>.\<close>

definition random_uniform :: "real \<Rightarrow> real \<Rightarrow> rng \<Rightarrow> real \<times> rng" where
  "random_uniform a b g = (a + (b - a) * shd g, stl g)"

text \<open>Particle(x, y, vx, vy, p\_type) (sim\_core.py 26-33).\<close>

definition Particle :: "real \<Rightarrow> real \<Rightarrow> real \<Rightarrow> real \<Rightarrow> nat \<Rightarrow> particle" where
  "Particle x y vx vy t = \<lparr>p_x = x, p_y = y, p_vx = vx, p_vy = vy, p_type = t, p_bonds = []\<rparr>"

text \<open>\_create\_particles (sim\_core.py 69-76): the creation of one particle of
  type \<open>t\<close>, the inner loop with its remaining count, and the outer loop with the
  number of types still to come, the next being \<open>t\<close>.\<close>

definition create_one :: "nat \<Rightarrow> rng \<Rightarrow> particle \<times> rng" where
  "create_one t g =
     (case random_uniform 0 WORLD_WIDTH g of (x, g1) \<Rightarrow>
      case random_uniform 0 WORLD_HEIGHT g1 of (y, g2) \<Rightarrow>
      case random_uniform (- 2.2) 2.2 g2 of (vx, g3) \<Rightarrow>
      case random_uniform (- 2.2) 2.2 g3 of (vy, g4) \<Rightarrow>
        (Particle x y vx vy t, g4))"

fun create_of_type :: "nat \<Rightarrow> nat \<Rightarrow> particle list \<Rightarrow> rng \<Rightarrow> particle list \<times> rng" where
  "create_of_type 0 t ps g = (ps, g)"
| "create_of_type (Suc k) t ps g =
     create_of_type k t (ps @ [fst (create_one t g)]) (snd (create_one t g))"

fun create_types :: "nat \<Rightarrow> nat \<Rightarrow> nat \<Rightarrow> particle list \<Rightarrow> rng \<Rightarrow> particle list \<times> rng" where
  "create_types 0 t n_per_type ps g = (ps, g)"
| "create_types (Suc k) t n_per_type ps g =
     create_types k (Suc t) n_per_type
       (fst (create_of_type n_per_type t ps g)) (snd (create_of_type n_per_type t ps g))"

text \<open>Simulation.\_\_init\_\_ (sim\_core.py 61-67).\<close>

definition Simulation_init :: "nat \<Rightarrow> nat \<Rightarrow> real \<Rightarrow> rng \<Rightarrow> Simulation \<times> rng" where
  "Simulation_init ntypes particles_per_type temp g =
     (case create_types ntypes 0 particles_per_type [] g of (ps, g1) \<Rightarrow>
        (\<lparr>sim_temperature = temp, sim_n_types = ntypes, sim_particles = ps, sim_bonds = [],
          sim_grid = \<lparr>cell_size = 42.0, grid = (\<lambda>cell. None)\<rparr>\<rparr>, g1))"

text \<open>Simulation.\_process\_reactions (sim\_core.py 140-159).\<close>

definition process_reactions ::
  "nat \<Rightarrow> nat \<Rightarrow> real \<Rightarrow> particle list \<Rightarrow> bond list \<Rightarrow> rng \<Rightarrow>
   error + (particle list \<times> bond list \<times> rng)" where
  "process_reactions i j T parts bnds g =
     ebind (getitem parts j) (\<lambda>p_j.
     ebind (getitem parts i) (\<lambda>p_i.
       case wrap (p_x p_j - p_x p_i) (p_y p_j - p_y p_i) of (dx, dy) \<Rightarrow>
       let r2 = dx * dx + dy * dy in
       if r2 > 34.0 * 34.0 then Inr (parts, bnds, g)
       else
         ebind (prebond_damp i j parts bnds T) (\<lambda>ps1.
         ebind (try_form_bond i j ps1 bnds T g) (\<lambda>(formed, ps2, bnds2, g2).
           if formed then Inr (ps2, bnds2, g2)
           else
             ebind (reaction_addition i j bnds2 ps2 T g2) (\<lambda>(added, ps3, bnds3, g3).
             ebind (reaction_substitution i j bnds3 ps3 T g3) (\<lambda>(substituted, ps4, bnds4, g4).
             ebind (reaction_dissociation i bnds4 ps4 T g4) (\<lambda>(dissociated, ps5, bnds5, g5).
               Inr (ps5, bnds5, g5))))))))"

text \<open>
  The state the loops of step() work on: the force accumulators \<open>fx\<close> and \<open>fy\<close>, the
  particles, the ledger and the random source.
\<close>

type_synonym step_state = "real list \<times> real list \<times> particle list \<times> bond list \<times> rng"

text \<open>step(), the body of the inner loop of the pair pass for one yielded \<open>j\<close>
  (sim\_core.py 93-105). The accumulators have one entry per particle, so after
  \<open>parts[j]\<close> has succeeded the writes to \<open>fx[j]\<close> and \<open>fy[j]\<close> are in range.\<close>

definition pair_body :: "nat \<Rightarrow> nat \<Rightarrow> real \<Rightarrow> step_state \<Rightarrow> error + step_state" where
  "pair_body i j T st =
     (case st of (fx, fy, parts, bnds, g) \<Rightarrow>
      if j \<le> i then Inr st
      else
        ebind (getitem parts i) (\<lambda>p_i.
          if j \<in> set (p_bonds p_i) then Inr st
          else
            ebind (getitem parts j) (\<lambda>p_j.
              let f = compute_nonbonded_force p_i p_j;
                  fx1 = fx[i := fx ! i + fst f];
                  fy1 = fy[i := fy ! i + snd f];
                  fx2 = fx1[j := fx1 ! j - fst f];
                  fy2 = fy1[j := fy1 ! j - snd f]
              in ebind (process_reactions i j T parts bnds g) (\<lambda>(parts1, bnds1, g1).
                   Inr (fx2, fy2, parts1, bnds1, g1)))))"

text \<open>step(), the inner loop over the neighbours of particle \<open>i\<close> (sim\_core.py 92).\<close>

fun neighbor_loop :: "nat \<Rightarrow> nat list \<Rightarrow> real \<Rightarrow> step_state \<Rightarrow> error + step_state" where
  "neighbor_loop i [] T st = Inr st"
| "neighbor_loop i (j # js) T st =
     (case pair_body i j T st of Inl e \<Rightarrow> Inl e | Inr st1 \<Rightarrow> neighbor_loop i js T st1)"

text \<open>step(), one round of the outer loop of the pair pass (sim\_core.py 91-105): the
  neighbour query at particle \<open>i\<close> and the inner loop over what it yields. The generator
  reads the position of particle \<open>i\<close> when the inner loop starts; the pair pass changes
  no position and does not touch the grid.\<close>

definition pair_row :: "nat \<Rightarrow> SpatialGrid \<Rightarrow> real \<Rightarrow> step_state \<Rightarrow> error + step_state" where
  "pair_row i sg T st =
     (case st of (fx, fy, parts, bnds, g) \<Rightarrow>
      ebind (getitem parts i) (\<lambda>p_i.
      ebind (neighbors sg (p_x p_i) (p_y p_i)) (\<lambda>js.
        neighbor_loop i js T st)))"

text \<open>step(), the outer loop of the pair pass (sim\_core.py 91), over the indices still
  to come.\<close>

fun pair_loop :: "nat list \<Rightarrow> SpatialGrid \<Rightarrow> real \<Rightarrow> step_state \<Rightarrow> error + step_state" where
  "pair_loop [] sg T st = Inr st"
| "pair_loop (i # is) sg T st =
     (case pair_row i sg T st of Inl e \<Rightarrow> Inl e | Inr st1 \<Rightarrow> pair_loop is sg T st1)"

text \<open>step(), the rebuild of the grid (sim\_core.py 84-86), from index \<open>i\<close> on.\<close>

fun insert_all :: "nat \<Rightarrow> particle list \<Rightarrow> SpatialGrid \<Rightarrow> error + SpatialGrid" where
  "insert_all i [] sg = Inr sg"
| "insert_all i (p # ps) sg =
     (case grid_insert sg i (p_x p) (p_y p) of
        Inl e \<Rightarrow> Inl e
      | Inr sg1 \<Rightarrow> insert_all (Suc i) ps sg1)"

text \<open>step(), the body of the pass over the ledger for the bond at ledger index
  \<open>b_idx\<close> (sim\_core.py 109-127): the result is the aged bond, the accumulators and
  \<open>bonds_to_break\<close>. \<open>broken_phys or try_break_bond(...)\<close> calls try\_break\_bond only
  when \<open>broken_phys\<close> is false.\<close>

definition bond_body ::
  "nat \<Rightarrow> bond \<Rightarrow> particle list \<Rightarrow> real \<Rightarrow> real list \<Rightarrow> real list \<Rightarrow> nat list \<Rightarrow>
   error + (bond \<times> real list \<times> real list \<times> nat list)" where
  "bond_body b_idx b0 parts T fx fy bonds_to_break =
     (let b = b0\<lparr>b_age := b_age b0 + 1\<rparr>;
          i = b_i b; j = b_j b
      in
      ebind (getitem parts i) (\<lambda>p_i.
      ebind (getitem parts j) (\<lambda>p_j.
        case compute_bond_force p_i p_j b of (fbx, fby, broken_phys) \<Rightarrow>
        let fx1 = fx[i := fx ! i + fbx];
            fy1 = fy[i := fy ! i + fby];
            fx2 = fx1[j := fx1 ! j - fbx];
            fy2 = fy1[j := fy1 ! j - fby]
        in
        case compute_dipole_torque p_i p_j (b_dipole b) of (tfx_i, tfy_i, tfx_j, tfy_j) \<Rightarrow>
        let fx3 = fx2[i := fx2 ! i + tfx_i];
            fy3 = fy2[i := fy2 ! i + tfy_i];
            fx4 = fx3[j := fx3 ! j + tfx_j];
            fy4 = fy3[j := fy3 ! j + tfy_j]
        in
        ebind (if broken_phys then Inr True else try_break_bond b parts T) (\<lambda>brk.
          Inr (b, fx4, fy4, (if brk then bonds_to_break @ [b_idx] else bonds_to_break))))))"

text \<open>step(), the pass over the ledger (sim\_core.py 107-127), from ledger index
  \<open>b_idx\<close> on.\<close>

fun bond_loop ::
  "nat \<Rightarrow> bond list \<Rightarrow> particle list \<Rightarrow> real \<Rightarrow> real list \<Rightarrow> real list \<Rightarrow> nat list \<Rightarrow>
   error + (bond list \<times> real list \<times> real list \<times> nat list)" where
  "bond_loop b_idx [] parts T fx fy bonds_to_break = Inr ([], fx, fy, bonds_to_break)"
| "bond_loop b_idx (b0 # bs) parts T fx fy bonds_to_break =
     (case bond_body b_idx b0 parts T fx fy bonds_to_break of
        Inl e \<Rightarrow> Inl e
      | Inr r \<Rightarrow>
          (case bond_loop (Suc b_idx) bs parts T (fst (snd r)) (fst (snd (snd r)))
                  (snd (snd (snd r))) of
             Inl e \<Rightarrow> Inl e
           | Inr r1 \<Rightarrow> Inr (fst r # fst r1, snd r1)))"

text \<open>step(), the removal of the marked bonds (sim\_core.py 129-131), over the indices
  already reversed.\<close>

fun break_loop ::
  "nat list \<Rightarrow> bond list \<Rightarrow> particle list \<Rightarrow> error + (bond list \<times> particle list)" where
  "break_loop [] bnds parts = Inr (bnds, parts)"
| "break_loop (b_idx # rest) bnds parts =
     (case ebind (getitem bnds b_idx) (\<lambda>b. remove_bond_between (b_i b) (b_j b) bnds parts) of
        Inl e \<Rightarrow> Inl e
      | Inr r \<Rightarrow> break_loop rest (fst r) (snd r))"

text \<open>\_apply\_lowT\_geometry\_forces (sim\_core.py 161-210): the dictionary
  \<open>target_angles\<close>, the list \<open>vecs\<close> of one particle, the double loop over the pairs
  \<open>a < b\<close> of \<open>vecs\<close>, and the loop over the particles.\<close>

definition target_angles :: "nat \<Rightarrow> real option" where
  "target_angles = map_of [(2, pi), (3, 2.0 * pi / 3.0), (4, 109.5 * pi / 180.0)]"

definition bond_vec :: "particle \<Rightarrow> nat \<Rightarrow> particle list \<Rightarrow> error + (real \<times> real \<times> nat) list" where
  "bond_vec p j parts =
     ebind (getitem parts j) (\<lambda>p_j.
       case wrap (p_x p_j - p_x p) (p_y p_j - p_y p) of (dx, dy) \<Rightarrow>
       let r2 = dx * dx + dy * dy in
       if r2 < 1 / 10 ^ 6 then Inr []
       else let r = sqrt r2 in Inr [(dx / r, dy / r, j)])"

fun bond_vecs ::
  "particle \<Rightarrow> nat list \<Rightarrow> particle list \<Rightarrow> error + (real \<times> real \<times> nat) list" where
  "bond_vecs p [] parts = Inr []"
| "bond_vecs p (j # js) parts =
     (case bond_vec p j parts of
        Inl e \<Rightarrow> Inl e
      | Inr v \<Rightarrow> (case bond_vecs p js parts of Inl e \<Rightarrow> Inl e | Inr rest \<Rightarrow> Inr (v @ rest)))"

fun vec_pairs :: "'a list \<Rightarrow> ('a \<times> 'a) list" where
  "vec_pairs [] = []"
| "vec_pairs (a # bs) = map (\<lambda>b. (a, b)) bs @ vec_pairs bs"

definition angle_push ::
  "real \<Rightarrow> real \<Rightarrow> (real \<times> real \<times> nat) \<times> (real \<times> real \<times> nat) \<Rightarrow> real \<times> real \<Rightarrow> real \<times> real" where
  "angle_push strength target ab acc =
     (case ab of ((ax, ay, ja), (bx, by, jb)) \<Rightarrow>
      let dot = max (- 1.0) (min 1.0 (ax * bx + ay * by));
          ang = arccos dot;
          diff = ang - target;
          txa = - ay; tya = ax;
          txb = - by; tyb = bx
      in (fst acc + - strength * diff * (txa + txb), snd acc + - strength * diff * (tya + tyb)))"

definition lowT_body ::
  "nat \<Rightarrow> particle \<Rightarrow> particle list \<Rightarrow> real \<Rightarrow> real list \<Rightarrow> real list \<Rightarrow>
   error + (real list \<times> real list)" where
  "lowT_body i p parts strength fx fy =
     (let neigh = p_bonds p; k = length neigh in
      if k < 2 \<or> k > 4 then Inr (fx, fy)
      else case target_angles k of
        None \<Rightarrow> Inr (fx, fy)
      | Some target \<Rightarrow>
          ebind (bond_vecs p neigh parts) (\<lambda>vecs.
            if length vecs < 2 then Inr (fx, fy)
            else
              case fold (angle_push strength target) (vec_pairs vecs) (fx ! i, fy ! i)
              of (fxi, fyi) \<Rightarrow> Inr (fx[i := fxi], fy[i := fyi])))"

fun lowT_loop ::
  "nat \<Rightarrow> particle list \<Rightarrow> particle list \<Rightarrow> real \<Rightarrow> real list \<Rightarrow> real list \<Rightarrow>
   error + (real list \<times> real list)" where
  "lowT_loop i [] parts strength fx fy = Inr (fx, fy)"
| "lowT_loop i (p # ps) parts strength fx fy =
     (case lowT_body i p parts strength fx fy of
        Inl e \<Rightarrow> Inl e
      | Inr r \<Rightarrow> lowT_loop (Suc i) ps parts strength (fst r) (snd r))"

definition apply_lowT_geometry_forces ::
  "particle list \<Rightarrow> real list \<Rightarrow> real list \<Rightarrow> real \<Rightarrow> error + (real list \<times> real list)" where
  "apply_lowT_geometry_forces parts fx fy T =
     (let strength = 0.015 * (1.0 - T) in lowT_loop 0 parts parts strength fx fy)"

text \<open>step(), everything before the call of integrate (sim\_core.py 79-137): the grid
  rebuild, the pair pass, the ledger pass, the removal of broken bonds and the
  low-temperature geometry pass. The result is the force list and the simulation.\<close>

definition step_forces ::
  "Simulation \<Rightarrow> rng \<Rightarrow> error + ((real \<times> real) list \<times> Simulation \<times> rng)" where
  "step_forces sim g =
     (let parts = sim_particles sim; bnds = sim_bonds sim; n = length parts; T = sim_temperature sim in
      ebind (insert_all 0 parts (grid_clear (sim_grid sim))) (\<lambda>sg.
        let fx = replicate n 0.0; fy = replicate n 0.0 in
        ebind (pair_loop [0..<n] sg T (fx, fy, parts, bnds, g))
          (\<lambda>(fx1, fy1, parts1, bnds1, g1).
        ebind (bond_loop 0 bnds1 parts1 T fx1 fy1 []) (\<lambda>(bnds2, fx2, fy2, bonds_to_break).
        ebind (break_loop (rev bonds_to_break) bnds2 parts1) (\<lambda>(bnds3, parts3).
        ebind (if T < 1.0 then apply_lowT_geometry_forces parts3 fx2 fy2 T
               else Inr (fx2, fy2)) (\<lambda>(fx3, fy3).
          Inr (zip fx3 fy3,
               sim\<lparr>sim_particles := parts3, sim_bonds := bnds3, sim_grid := sg\<rparr>, g1)))))))"

text \<open>Simulation.step (sim\_core.py 78-138).\<close>

definition step :: "Simulation \<Rightarrow> rng \<Rightarrow> error + (Simulation \<times> rng)" where
  "step sim g =
     ebind (step_forces sim g) (\<lambda>(forces, sim1, g1).
     ebind (integrate (sim_particles sim1) forces (sim_temperature sim1) g1) (\<lambda>(parts, g2).
       Inr (sim1\<lparr>sim_particles := parts\<rparr>, g2)))"

section \<open>Notions the properties are stated with\<close>

text \<open>The wrapped (toroidal) distance between two particles: the norm of the displacement
  after wrap, as every distance test of the code computes it.\<close>

definition wrapped_distance :: "particle \<Rightarrow> particle \<Rightarrow> real" where
  "wrapped_distance p q =
     (case wrap (p_x q - p_x p) (p_y q - p_y p) of (dx, dy) \<Rightarrow> sqrt (dx * dx + dy * dy))"

text \<open>The tiered classification rule as the specification words it, on the
  electronegativity gap and the temperature.\<close>

definition tiered_rule :: "real \<Rightarrow> real \<Rightarrow> bond_type" where
  "tiered_rule gap T =
     (if T \<le> 0.9 then (if gap < 1.6 then Covalent else Ionic)
      else if T \<ge> 1.6 then (if gap > 0.9 then Ionic else Metallic)
      else if gap < 0.35 then Metallic
      else if gap < 1.2 then Covalent
      else Ionic)"

text \<open>The electronegativity of a particle type, for the five types of the table.\<close>

definition electronegativity :: "nat \<Rightarrow> real" where
  "electronegativity t = ELECTRONEG ! t"

text \<open>Ledger/adjacency consistency, as the specification words it: for every particle
  the indices in its adjacency list are exactly the other endpoints of the ledger's bonds
  that touch it; no unordered pair has two bonds in the ledger; no adjacency list has a
  duplicate.\<close>

definition partners :: "nat \<Rightarrow> bond list \<Rightarrow> nat list" where
  "partners i bs =
     concat (map (\<lambda>b. (if b_i b = i then [b_j b] else []) @ (if b_j b = i then [b_i b] else []))
                 bs)"

definition adjacency_mirrors_ledger :: "particle list \<Rightarrow> bond list \<Rightarrow> bool" where
  "adjacency_mirrors_ledger ps bs =
     list_all (\<lambda>i. set (p_bonds (ps ! i)) = set (partners i bs)) [0..<length ps]"

definition ledger_pairs_unique :: "bond list \<Rightarrow> bool" where
  "ledger_pairs_unique bs = distinct (map (\<lambda>b. {b_i b, b_j b}) bs)"

definition adjacency_duplicate_free :: "particle list \<Rightarrow> bool" where
  "adjacency_duplicate_free ps = list_all (\<lambda>p. distinct (p_bonds p)) ps"

definition ledger_consistent :: "particle list \<Rightarrow> bond list \<Rightarrow> bool" where
  "ledger_consistent ps bs =
     (adjacency_mirrors_ledger ps bs \<and> ledger_pairs_unique bs \<and> adjacency_duplicate_free ps)"

text \<open>The valence cap: no adjacency list is longer than 5, the largest value
  dynamic\_max\_bonds returns.\<close>

definition valence_capped :: "particle list \<Rightarrow> bool" where
  "valence_capped ps = list_all (\<lambda>p. length (p_bonds p) \<le> 5) ps"

text \<open>
  The states of particles and ledger that a run can reach. A run starts without bonds
  (Simulation.\_\_init\_\_). step() changes particles and ledger only through
  \_process\_reactions on pairs \<open>i < j\<close>, which is a sequence of the chemistry
  operations below, through the ageing of bonds, through remove\_bond\_between, and
  through the velocity and position updates of the integrator (which persist when the
  integrator raises); each chemistry operation may also be called on its own, on two
  different particles.
\<close>

inductive reachable :: "particle list \<Rightarrow> bond list \<Rightarrow> bool" where
  start: "list_all (\<lambda>p. p_bonds p = []) ps \<Longrightarrow> reachable ps []"
| damp: "reachable ps bs \<Longrightarrow> prebond_damp i j ps bs T = Inr ps' \<Longrightarrow> reachable ps' bs"
| form: "reachable ps bs \<Longrightarrow> i \<noteq> j \<Longrightarrow>
         try_form_bond i j ps bs T g = Inr (r, ps', bs', g') \<Longrightarrow> reachable ps' bs'"
| addition: "reachable ps bs \<Longrightarrow> i \<noteq> j \<Longrightarrow>
         reaction_addition i j bs ps T g = Inr (r, ps', bs', g') \<Longrightarrow> reachable ps' bs'"
| substitution: "reachable ps bs \<Longrightarrow> i \<noteq> j \<Longrightarrow>
         reaction_substitution i j bs ps T g = Inr (r, ps', bs', g') \<Longrightarrow> reachable ps' bs'"
| dissociation: "reachable ps bs \<Longrightarrow>
         reaction_dissociation i bs ps T g = Inr (r, ps', bs', g') \<Longrightarrow> reachable ps' bs'"
| removal: "reachable ps bs \<Longrightarrow>
         remove_bond_between i j bs ps = Inr (bs', ps') \<Longrightarrow> reachable ps' bs'"
| ageing: "reachable ps bs \<Longrightarrow>
         map (\<lambda>b. b\<lparr>b_age := 0\<rparr>) bs' = map (\<lambda>b. b\<lparr>b_age := 0\<rparr>) bs \<Longrightarrow> reachable ps bs'"
| motion: "reachable ps bs \<Longrightarrow>
         map (\<lambda>p. (p_type p, p_bonds p)) ps' = map (\<lambda>p. (p_type p, p_bonds p)) ps \<Longrightarrow>
         reachable ps' bs"

section \<open>Two concrete runs\<close>

text \<open>Short names for the particles of the two runs, as the constructor builds them, and
  for the grid before and after its rebuild (the same cells in both runs).\<close>

abbreviation pa0 :: particle where "pa0 \<equiv> Particle 118 100 0 0 0"
abbreviation pa1 :: particle where "pa1 \<equiv> Particle 100 100 0 0 1"
abbreviation pa2 :: particle where "pa2 \<equiv> Particle 82 100 0 0 2"
abbreviation pb0 :: particle where "pb0 \<equiv> Particle 100 100 0 0 0"
abbreviation pb1 :: particle where "pb1 \<equiv> Particle 120 100 0 0 0"
abbreviation pb2 :: particle where "pb2 \<equiv> Particle 80 100 0 0 0"

abbreviation grid_empty :: SpatialGrid where
  "grid_empty \<equiv> \<lparr>cell_size = 42.0, grid = (\<lambda>cell. None)\<rparr>"

abbreviation grid_filled :: SpatialGrid where
  "grid_filled \<equiv>
     \<lparr>cell_size = 42.0, grid = ((\<lambda>cell. None)((2, 2) \<mapsto> [0, 1]))((1, 2) \<mapsto> [2])\<rparr>"

text \<open>
  What \<open>Simulation(n_types=3, particles_per_type=1, temperature=1.2)\<close> builds when the
  random source places the three particles on one line, 18 apart, at rest; and the
  simulation that its first step() has produced when it calls the integrator.
\<close>

definition sim_a :: Simulation where
  "sim_a =
     \<lparr>sim_temperature = 1.2, sim_n_types = 3,
      sim_particles = [pa0, pa1, pa2],
      sim_bonds = [],
      sim_grid = grid_empty\<rparr>"

definition sim_a_stepped :: Simulation where
  "sim_a_stepped =
     \<lparr>sim_temperature = 1.2, sim_n_types = 3,
      sim_particles = [pa0,
                       pa1\<lparr>p_bonds := [2, 2]\<rparr>,
                       pa2\<lparr>p_bonds := [1, 1]\<rparr>],
      sim_bonds = [(Bond 1 2 Covalent 1 18)\<lparr>b_dipole := (- 1, 0), b_age := 1\<rparr>,
                   (Bond 1 2 Covalent 1 18)\<lparr>b_dipole := (- 1, 0), b_age := 1\<rparr>],
      sim_grid = grid_filled\<rparr>"

text \<open>
  What \<open>Simulation(n_types=1, particles_per_type=3, temperature=0.5)\<close> builds when the
  random source places the three particles on one line, 20 apart, at rest; and the
  simulation that its first step() has produced when it calls the integrator.
\<close>

definition sim_b :: Simulation where
  "sim_b =
     \<lparr>sim_temperature = 0.5, sim_n_types = 1,
      sim_particles = [pb0, pb1, pb2],
      sim_bonds = [],
      sim_grid = grid_empty\<rparr>"

definition sim_b_stepped :: Simulation where
  "sim_b_stepped =
     \<lparr>sim_temperature = 0.5, sim_n_types = 1,
      sim_particles = [pb0\<lparr>p_bonds := [2, 1]\<rparr>,
                       pb1\<lparr>p_bonds := [0]\<rparr>,
                       pb2\<lparr>p_bonds := [0]\<rparr>],
      sim_bonds = [(Bond 0 2 Covalent 3 18)\<lparr>b_dipole := (1, 0), b_age := 1\<rparr>,
                   (Bond 0 1 Covalent 3 18)\<lparr>b_dipole := (- 1, 0), b_age := 1\<rparr>],
      sim_grid = grid_filled\<rparr>"

section \<open>Basic facts about the conventions\<close>

lemma ebind_simps: "ebind (Inr v) f = f v" "ebind (Inl e) f = Inl e"
  by (simp_all add: ebind_def)

text \<open>A congruence rule that keeps the simplifier out of the continuation until the
  first computation has been evaluated.\<close>

lemma ebind_weak_cong: "m = m' \<Longrightarrow> ebind m f = ebind m' f"
  by simp

lemma sqrt_100: "sqrt 100 = 10"
  by (rule real_sqrt_unique) simp_all

lemma sqrt_324: "sqrt 324 = 18"
  by (rule real_sqrt_unique) simp_all

lemma sqrt_400: "sqrt 400 = 20"
  by (rule real_sqrt_unique) simp_all

lemma sqrt_1296: "sqrt 1296 = 36"
  by (rule real_sqrt_unique) simp_all

lemma sqrt_1600: "sqrt 1600 = 40"
  by (rule real_sqrt_unique) simp_all

text \<open>The definitions that evaluate a call on concrete arguments.\<close>

lemmas chem_consts = TARGET_SHELL_def VALENCE_ELECTRONS_def ELECTRONEG_def TYPE_PREF_def
  pref_get_def MAX_BONDS_BASE_def T_GEOM_MAX_def T_IONIC_MIN_def CAPTURE_RADIUS_def
  BOND_FORM_RADIUS_def REL_V2_BASE_def REL_V2_STABIL_BONUS_def P_BOND_BASE_def
  P_BOND_DEFICIT_GAIN_def P_BOND_LOW_T_BOOST_def P_BOND_HIGH_T_BOOST_def P_DISSOC_BASE_def
  P_DISSOC_HIGH_T_def WORLD_WIDTH_def WORLD_HEIGHT_def

lemmas chem_defs = shell_fill_def shell_deficit_def dynamic_max_bonds_def
  classify_bond_type_temp_def dipole_from_EN_def choose_order_def initial_length_def wrap_def
  getitem_def ebind_simps random_random_def math_sqrt_def Bond_def Particle_def

lemmas react_defs = process_reactions_def prebond_damp_def reaction_addition_def
  reaction_substitution_def reaction_dissociation_def remove_bond_between_def try_form_bond_def
  formation_probability_def new_bond_def append_bond_def nudge_velocities_def

lemmas phys_consts = NONBONDED_RANGE_def NONBONDED_SOFT_REPULSION_def NONBONDED_REPULSION_def
  BOND_SPRING_CONSTANT_def BOND_DAMPING_def BOND_BREAK_THRESHOLD_def BOND_FORCE_CAP_def
  BOND_SOFTSTART_STEPS_def DIPOLE_STRENGTH_def

lemmas row_defs = pair_row_def pair_body_def neighbors_def cell_coord_def
  compute_nonbonded_force_def

lemmas bond_pass_defs = bond_body_def compute_bond_force_def compute_dipole_torque_def
  try_break_bond_def soften_def

section \<open>The integrator never gets past its Langevin term\<close>

lemma load_global_bonding_factor: "load_global ''bonding_factor'' = Inl NameError"
  by (simp add: load_global_def physics_globals_def)

lemma apply_langevin_NameError:
  "0 \<le> temperature \<Longrightarrow> apply_langevin p temperature n a g = Inl NameError"
  by (simp add: apply_langevin_def math_sqrt_def LANGEVIN_GAMMA_def ebind_simps
      load_global_bonding_factor)

lemma integrate_kick_ok:
  "i + length ps \<le> length forces \<Longrightarrow>
   \<exists>ps'. integrate_kick i ps forces = Inr ps' \<and> length ps' = length ps"
proof (induction ps arbitrary: i)
  case Nil
  then show ?case by simp
next
  case (Cons p ps)
  from Cons.prems have "Suc i + length ps \<le> length forces" by simp
  from Cons.IH [OF this] obtain rest where
    rest: "integrate_kick (Suc i) ps forces = Inr rest" "length rest = length ps" by blast
  from Cons.prems have "i < length forces" by simp
  then show ?case using rest
    by (simp add: getitem_def ebind_simps split_def Let_def)
qed

lemma integrate_nonempty_raises:
  assumes "particles \<noteq> []" and "length forces = length particles" and "0 < temperature"
  shows "integrate particles forces temperature g = Inl NameError"
proof -
  from assms(2) have "0 + length particles \<le> length forces" by simp
  from integrate_kick_ok [OF this] obtain ps1 where
    k: "integrate_kick 0 particles forces = Inr ps1" "length ps1 = length particles" by blast
  with assms(1) obtain q qs where ps1: "ps1 = q # qs" by (cases ps1) auto
  have "integrate_langevin ps1 temperature g = Inl NameError"
    using assms(3) by (simp add: ps1 Let_def apply_langevin_NameError ebind_simps)
  with k show ?thesis by (simp add: integrate_def ebind_simps)
qed

text \<open>
  Claim C1 says that integrate, with its Langevin routine, completes without raising
  for every non-empty particle list, force list of the same length and positive
  temperature. The code does the opposite: on every such input the first loop completes,
  and the first call of apply\_langevin raises NameError, because line 146 reads the
  global \<open>bonding_factor\<close> that nothing binds.
\<close>

theorem integrate_raises_NameError:
  assumes "particles \<noteq> []" and "length forces = length particles" and "0 < temperature"
  shows "integrate particles forces temperature g = Inl NameError"
  using assms by (rule integrate_nonempty_raises)

theorem integrate_raises_NameError_witness:
  "[\<lparr>p_x = 100, p_y = 100, p_vx = 0, p_vy = 0, p_type = 0, p_bonds = []\<rparr>] \<noteq> [] \<and>
   length [(0::real, 0::real)] =
     length [\<lparr>p_x = 100, p_y = 100, p_vx = 0, p_vy = 0, p_type = 0, p_bonds = []\<rparr>] \<and>
   (0::real) < 1 \<and>
   integrate [\<lparr>p_x = 100, p_y = 100, p_vx = 0, p_vy = 0, p_type = 0, p_bonds = []\<rparr>]
     [(0, 0)] 1 (sconst 0) = Inl NameError"
  using integrate_raises_NameError
    [of "[\<lparr>p_x = 100, p_y = 100, p_vx = 0, p_vy = 0, p_type = 0, p_bonds = []\<rparr>]"
        "[(0, 0)]" 1 "sconst 0"]
  by simp

section \<open>The soft-start ramp of the bonded force\<close>

lemma soften_min:
  "soften b = min (real_of_int (b_age b + 1) / real_of_int BOND_SOFTSTART_STEPS) 1"
  by (simp add: soften_def BOND_SOFTSTART_STEPS_def min_def)

text \<open>
  Claim C6 as stated: the ramp factor in compute\_bond\_force is \<open>min (age / N) 1\<close> with
  \<open>N = BOND_SOFTSTART_STEPS\<close>. For a bond of age 0 that would be 0, and with it the spring
  force; the code's factor is \<open>1 / 12\<close>, and a bond of age 0 stretched by 3 between two
  resting particles pulls with a force that is not 0.
\<close>

theorem soften_age_counterexample:
  "min (real_of_int (b_age (Bond 0 1 Covalent 1 17)) / real_of_int BOND_SOFTSTART_STEPS) 1 = 0 \<and>
   soften (Bond 0 1 Covalent 1 17) = 1 / 12 \<and>
   compute_bond_force
     \<lparr>p_x = 100, p_y = 100, p_vx = 0, p_vy = 0, p_type = 0, p_bonds = [1]\<rparr>
     \<lparr>p_x = 120, p_y = 100, p_vx = 0, p_vy = 0, p_type = 0, p_bonds = [0]\<rparr>
     (Bond 0 1 Covalent 1 17) = (59 / 625, 0, False)"
  by (simp add: soften_def Bond_def BOND_SOFTSTART_STEPS_def compute_bond_force_def wrap_def
      WORLD_WIDTH_def WORLD_HEIGHT_def sqrt_400 BOND_SPRING_CONSTANT_def BOND_DAMPING_def
      BOND_FORCE_CAP_def BOND_BREAK_THRESHOLD_def)

text \<open>
  Claim C6, amended: the ramp factor is \<open>min ((age + 1) / N) 1\<close>, that is
  \<open>(age + 1) / N\<close> while \<open>age < N\<close> and exactly 1 from then on, and it is the factor by
  which compute\_bond\_force scales the spring constant: the function's result is the
  formula below, in which the ramp is written out. This holds for every integer age.
\<close>

theorem soft_start_ramp:
  "soften b = min (real_of_int (b_age b + 1) / real_of_int BOND_SOFTSTART_STEPS) 1 \<and>
   compute_bond_force p_i p_j b =
     (case wrap (p_x p_j - p_x p_i) (p_y p_j - p_y p_i) of (dx, dy) \<Rightarrow>
      let r2 = dx * dx + dy * dy in
      if r2 < 1 / 10 ^ 9 then (0, 0, False)
      else
        let r = sqrt r2;
            ramp = min (real_of_int (b_age b + 1) / real_of_int BOND_SOFTSTART_STEPS) 1;
            k_eff = BOND_SPRING_CONSTANT * real_of_int (b_order b) * ramp
                    * (1.0 + 0.18 * real (min (length (p_bonds p_i)) (length (p_bonds p_j))));
            F_total = k_eff * (r - b_length b)
                      + BOND_DAMPING * ((p_vx p_j - p_vx p_i) * (dx / r)
                                        + (p_vy p_j - p_vy p_i) * (dy / r))
                        * real_of_int (b_order b);
            F_capped = max (- BOND_FORCE_CAP) (min BOND_FORCE_CAP F_total)
        in (dx / r * F_capped, dy / r * F_capped, r > b_length b * BOND_BREAK_THRESHOLD))"
proof
  show "soften b = min (real_of_int (b_age b + 1) / real_of_int BOND_SOFTSTART_STEPS) 1"
    by (rule soften_min)
next
  have cap: "(if F > BOND_FORCE_CAP then BOND_FORCE_CAP
              else if F < - BOND_FORCE_CAP then - BOND_FORCE_CAP else F)
             = max (- BOND_FORCE_CAP) (min BOND_FORCE_CAP F)" for F
    by (simp add: BOND_FORCE_CAP_def max_def min_def)
  show "compute_bond_force p_i p_j b =
     (case wrap (p_x p_j - p_x p_i) (p_y p_j - p_y p_i) of (dx, dy) \<Rightarrow>
      let r2 = dx * dx + dy * dy in
      if r2 < 1 / 10 ^ 9 then (0, 0, False)
      else
        let r = sqrt r2;
            ramp = min (real_of_int (b_age b + 1) / real_of_int BOND_SOFTSTART_STEPS) 1;
            k_eff = BOND_SPRING_CONSTANT * real_of_int (b_order b) * ramp
                    * (1.0 + 0.18 * real (min (length (p_bonds p_i)) (length (p_bonds p_j))));
            F_total = k_eff * (r - b_length b)
                      + BOND_DAMPING * ((p_vx p_j - p_vx p_i) * (dx / r)
                                        + (p_vy p_j - p_vy p_i) * (dy / r))
                        * real_of_int (b_order b);
            F_capped = max (- BOND_FORCE_CAP) (min BOND_FORCE_CAP F_total)
        in (dx / r * F_capped, dy / r * F_capped, r > b_length b * BOND_BREAK_THRESHOLD))"
    unfolding compute_bond_force_def Let_def cap soften_min [symmetric]
    by (simp add: split_def)
qed

section \<open>The periodic wrap\<close>

lemma wrap_component:
  fixes r :: real and k :: int
  assumes "\<bar>r\<bar> \<le> 400"
  shows "\<bar>r\<bar> \<le> \<bar>r + of_int k * 800\<bar>"
proof -
  consider "k = 0" | "k \<ge> 1" | "k \<le> -1" by linarith
  then show ?thesis
  proof cases
    case 1 then show ?thesis by simp
  next
    case 2
    then have "(1::real) \<le> of_int k" by simp
    with assms show ?thesis by linarith
  next
    case 3
    then have "of_int k \<le> (-1::real)" by (metis of_int_le_iff of_int_minus of_int_1)
    with assms show ?thesis by linarith
  qed
qed

text \<open>
  Claim C7 as stated covers every displacement outside the half extent. wrap shifts by
  one extent only: the component 2000 comes back as 1200, outside the range, and the
  periodic image \<open>2000 - 2 * 800 = 400\<close> is shorter.
\<close>

theorem wrap_far_counterexample:
  "fst (wrap 2000 0) = 1200 \<and> \<not> \<bar>fst (wrap 2000 0)\<bar> \<le> WORLD_WIDTH / 2 \<and>
   \<bar>2000 + of_int (- 2) * WORLD_WIDTH\<bar> < \<bar>fst (wrap 2000 0)\<bar>"
  by (simp add: wrap_def WORLD_WIDTH_def WORLD_HEIGHT_def)

text \<open>
  Claim C7, amended: for displacement components of magnitude at most one and a half
  extents (the difference of two coordinates inside the world is below one extent), wrap
  returns components in \<open>[-W/2, W/2]\<close> and \<open>[-H/2, H/2]\<close>, each a periodic image of its
  input, and the squared length of the result is minimal over all periodic images
  \<open>(dx + k * W, dy + m * H)\<close>.
\<close>

theorem wrap_minimal_image:
  assumes "\<bar>dx\<bar> \<le> 3 * WORLD_WIDTH / 2" and "\<bar>dy\<bar> \<le> 3 * WORLD_HEIGHT / 2"
  shows "\<bar>fst (wrap dx dy)\<bar> \<le> WORLD_WIDTH / 2 \<and> \<bar>snd (wrap dx dy)\<bar> \<le> WORLD_HEIGHT / 2 \<and>
         (\<exists>k0 m0 :: int. wrap dx dy = (dx + of_int k0 * WORLD_WIDTH, dy + of_int m0 * WORLD_HEIGHT)) \<and>
         (\<forall>k m :: int. (fst (wrap dx dy))\<^sup>2 + (snd (wrap dx dy))\<^sup>2
              \<le> (dx + of_int k * WORLD_WIDTH)\<^sup>2 + (dy + of_int m * WORLD_HEIGHT)\<^sup>2)"
proof -
  define wx where "wx = fst (wrap dx dy)"
  define wy where "wy = snd (wrap dx dy)"
  have bx: "\<bar>wx\<bar> \<le> 400" using assms(1) by (auto simp: wx_def wrap_def WORLD_WIDTH_def Let_def)
  have by': "\<bar>wy\<bar> \<le> 400" using assms(2) by (auto simp: wy_def wrap_def WORLD_HEIGHT_def Let_def)
  obtain k0 :: int where k0: "wx = dx + of_int k0 * 800"
  proof -
    have "wx = dx + of_int 0 * 800 \<or> wx = dx + of_int (-1) * 800 \<or> wx = dx + of_int 1 * 800"
      by (auto simp: wx_def wrap_def WORLD_WIDTH_def Let_def)
    then show ?thesis using that by blast
  qed
  obtain m0 :: int where m0: "wy = dy + of_int m0 * 800"
  proof -
    have "wy = dy + of_int 0 * 800 \<or> wy = dy + of_int (-1) * 800 \<or> wy = dy + of_int 1 * 800"
      by (auto simp: wy_def wrap_def WORLD_HEIGHT_def Let_def)
    then show ?thesis using that by blast
  qed
  have minimal: "wx\<^sup>2 + wy\<^sup>2 \<le> (dx + of_int k * 800)\<^sup>2 + (dy + of_int m * 800)\<^sup>2" for k m :: int
  proof -
    have ex: "dx + of_int k * 800 = wx + of_int (k - k0) * 800"
      using k0 by (simp add: algebra_simps)
    have "\<bar>wx\<bar> \<le> \<bar>wx + of_int (k - k0) * 800\<bar>" by (rule wrap_component [OF bx])
    then have "wx\<^sup>2 \<le> (wx + of_int (k - k0) * 800)\<^sup>2" by (simp only: abs_le_square_iff)
    then have 1: "wx\<^sup>2 \<le> (dx + of_int k * 800)\<^sup>2" by (simp only: ex)
    have ey: "dy + of_int m * 800 = wy + of_int (m - m0) * 800"
      using m0 by (simp add: algebra_simps)
    have "\<bar>wy\<bar> \<le> \<bar>wy + of_int (m - m0) * 800\<bar>" by (rule wrap_component [OF by'])
    then have "wy\<^sup>2 \<le> (wy + of_int (m - m0) * 800)\<^sup>2" by (simp only: abs_le_square_iff)
    then have 2: "wy\<^sup>2 \<le> (dy + of_int m * 800)\<^sup>2" by (simp only: ey)
    from 1 2 show ?thesis by linarith
  qed
  have "wrap dx dy = (wx, wy)" by (simp add: wx_def wy_def)
  then show ?thesis using bx by' k0 m0 minimal
    unfolding wx_def [symmetric] wy_def [symmetric]
    by (auto simp: WORLD_WIDTH_def WORLD_HEIGHT_def)
qed

theorem wrap_minimal_image_witness:
  "\<bar>798::real\<bar> \<le> 3 * WORLD_WIDTH / 2 \<and> \<bar>- 500::real\<bar> \<le> 3 * WORLD_HEIGHT / 2 \<and>
   wrap 798 (- 500) = (- 2, 300) \<and>
   \<bar>fst (wrap 798 (- 500))\<bar> \<le> WORLD_WIDTH / 2 \<and> \<bar>snd (wrap 798 (- 500))\<bar> \<le> WORLD_HEIGHT / 2 \<and>
   (\<forall>k m :: int. (fst (wrap 798 (- 500)))\<^sup>2 + (snd (wrap 798 (- 500)))\<^sup>2
        \<le> (798 + of_int k * WORLD_WIDTH)\<^sup>2 + (- 500 + of_int m * WORLD_HEIGHT)\<^sup>2)"
proof -
  have h1: "\<bar>798::real\<bar> \<le> 3 * WORLD_WIDTH / 2" by (simp add: WORLD_WIDTH_def)
  have h2: "\<bar>- 500::real\<bar> \<le> 3 * WORLD_HEIGHT / 2" by (simp add: WORLD_HEIGHT_def)
  have w: "wrap 798 (- 500) = (- 2, 300)"
    by (simp add: wrap_def WORLD_WIDTH_def WORLD_HEIGHT_def)
  from wrap_minimal_image [OF h1 h2] h1 h2 w show ?thesis by blast
qed

section \<open>The classification of the bond type\<close>

lemma getitem_ELECTRONEG: "t < 5 \<Longrightarrow> getitem ELECTRONEG t = Inr (electronegativity t)"
  by (simp add: getitem_def ELECTRONEG_def electronegativity_def)

text \<open>
  Claim C9: classify\_bond\_type\_temp is a total, deterministic function that follows
  the tiered rule. The function draws nothing from the random source (it neither takes nor
  returns it), so its result is a function of its arguments; for the five particle types
  of the electronegativity table it returns, without raising, the bond type the tiered
  rule gives for the electronegativity gap and the temperature.
\<close>

theorem classify_follows_tiers:
  assumes "p_type p_i < 5" and "p_type p_j < 5"
  shows "classify_bond_type_temp p_i p_j T =
           Inr (tiered_rule \<bar>electronegativity (p_type p_i) - electronegativity (p_type p_j)\<bar> T)"
  using assms
  by (simp add: classify_bond_type_temp_def getitem_ELECTRONEG ebind_simps tiered_rule_def
      T_GEOM_MAX_def T_IONIC_MIN_def Let_def)

theorem classify_follows_tiers_witness:
  "p_type (Particle 0 0 0 0 0) < 5 \<and> p_type (Particle 10 0 0 0 3) < 5 \<and>
   classify_bond_type_temp (Particle 0 0 0 0 0) (Particle 10 0 0 0 3) 0.5 = Inr Ionic \<and>
   classify_bond_type_temp (Particle 0 0 0 0 0) (Particle 10 0 0 0 3) 1.2 = Inr Ionic \<and>
   classify_bond_type_temp (Particle 0 0 0 0 0) (Particle 10 0 0 0 1) 1.2 = Inr Covalent \<and>
   classify_bond_type_temp (Particle 0 0 0 0 0) (Particle 10 0 0 0 1) 2 = Inr Metallic"
  using classify_follows_tiers [of "Particle 0 0 0 0 0" "Particle 10 0 0 0 3" "0.5"]
    classify_follows_tiers [of "Particle 0 0 0 0 0" "Particle 10 0 0 0 3" "1.2"]
    classify_follows_tiers [of "Particle 0 0 0 0 0" "Particle 10 0 0 0 1" "1.2"]
    classify_follows_tiers [of "Particle 0 0 0 0 0" "Particle 10 0 0 0 1" 2]
  by (simp add: Particle_def tiered_rule_def electronegativity_def ELECTRONEG_def)

section \<open>Facts about the error conventions\<close>

lemma getitem_in: "i < length xs \<Longrightarrow> getitem xs i = Inr (xs ! i)"
  by (simp add: getitem_def)

lemma getitem_Inr: "getitem xs i = Inr v \<Longrightarrow> i < length xs \<and> v = xs ! i"
  by (auto simp: getitem_def split: if_splits)

lemma ebind_Inr: "ebind m f = Inr r \<Longrightarrow> \<exists>v. m = Inr v \<and> f v = Inr r"
  by (cases m) (simp_all add: ebind_simps)

lemma math_sqrt_sq: "math_sqrt (dx * dx + dy * dy) = Inr (sqrt (dx * dx + dy * dy))"
  by (simp add: math_sqrt_def not_less)

section \<open>Breaking a bond by distance\<close>

text \<open>
  Claim C8. For a bond whose endpoints are particles of the list, try\_break\_bond
  returns true whenever the wrapped distance exceeds
  \<open>length * 1.9 * (1 + 0.2 * (order - 1))\<close>, whatever the temperature. For a bond of
  order 1 and positive length whose endpoints are at distance \<open>2.5 * length\<close>, both
  try\_break\_bond and the distance check of compute\_bond\_force flag it, whatever the
  temperature; compute\_bond\_force first returns "no force, not broken" for a pair
  closer than \<open>sqrt 1e-9\<close>, so that case is assumed away (every bond the code creates has
  a length of at least 12.5).
\<close>

theorem try_break_bond_distance:
  assumes "b_i b < length ps" and "b_j b < length ps"
  shows "(wrapped_distance (ps ! b_i b) (ps ! b_j b)
            > b_length b * BOND_BREAK_THRESHOLD * (1 + 0.2 * real_of_int (b_order b - 1))
          \<longrightarrow> try_break_bond b ps T = Inr True) \<and>
         (b_order b = 1 \<and> 0 < b_length b \<and>
          wrapped_distance (ps ! b_i b) (ps ! b_j b) = b_length b * 2.5 \<and>
          1 / 10 ^ 9 \<le> (wrapped_distance (ps ! b_i b) (ps ! b_j b))\<^sup>2
          \<longrightarrow> try_break_bond b ps T = Inr True \<and>
              snd (snd (compute_bond_force (ps ! b_i b) (ps ! b_j b) b)))"
proof -
  obtain dx dy where w: "wrap (p_x (ps ! b_j b) - p_x (ps ! b_i b))
      (p_y (ps ! b_j b) - p_y (ps ! b_i b)) = (dx, dy)"
    by (cases "wrap (p_x (ps ! b_j b) - p_x (ps ! b_i b)) (p_y (ps ! b_j b) - p_y (ps ! b_i b))")
  have d: "wrapped_distance (ps ! b_i b) (ps ! b_j b) = sqrt (dx * dx + dy * dy)"
    by (simp add: wrapped_distance_def w)
  have nn: "0 \<le> dx * dx + dy * dy" by simp
  have first: "try_break_bond b ps T = Inr True"
    if "sqrt (dx * dx + dy * dy)
            > b_length b * BOND_BREAK_THRESHOLD * (1 + 0.2 * real_of_int (b_order b - 1))"
    using that assms
    by (simp add: try_break_bond_def getitem_in ebind_simps w math_sqrt_sq Let_def)
  have second: "try_break_bond b ps T = Inr True \<and>
              snd (snd (compute_bond_force (ps ! b_i b) (ps ! b_j b) b))"
    if o: "b_order b = 1" and l: "0 < b_length b"
      and e: "sqrt (dx * dx + dy * dy) = b_length b * 2.5"
      and n: "1 / 10 ^ 9 \<le> (sqrt (dx * dx + dy * dy))\<^sup>2"
  proof
    have "sqrt (dx * dx + dy * dy)
            > b_length b * BOND_BREAK_THRESHOLD * (1 + 0.2 * real_of_int (b_order b - 1))"
      using o l e by (simp add: BOND_BREAK_THRESHOLD_def)
    then show "try_break_bond b ps T = Inr True" by (rule first)
    from n have "\<not> dx * dx + dy * dy < 1 / 10 ^ 9" using nn by (simp add: not_less)
    moreover have "sqrt (dx * dx + dy * dy) > b_length b * BOND_BREAK_THRESHOLD"
      using l e by (simp add: BOND_BREAK_THRESHOLD_def)
    ultimately show "snd (snd (compute_bond_force (ps ! b_i b) (ps ! b_j b) b))"
      by (simp add: compute_bond_force_def w Let_def)
  qed
  show ?thesis using first second unfolding d by blast
qed

theorem try_break_bond_distance_witness:
  "b_i (Bond 0 1 Covalent 1 16) < length [Particle 100 100 0 0 0, Particle 140 100 0 0 0] \<and>
   b_j (Bond 0 1 Covalent 1 16) < length [Particle 100 100 0 0 0, Particle 140 100 0 0 0] \<and>
   wrapped_distance (Particle 100 100 0 0 0) (Particle 140 100 0 0 0) = 40 \<and>
   b_length (Bond 0 1 Covalent 1 16) * 2.5 = 40 \<and>
   try_break_bond (Bond 0 1 Covalent 1 16)
     [Particle 100 100 0 0 0, Particle 140 100 0 0 0] 0.05 = Inr True \<and>
   snd (snd (compute_bond_force (Particle 100 100 0 0 0) (Particle 140 100 0 0 0)
     (Bond 0 1 Covalent 1 16)))"
proof -
  have d: "wrapped_distance (Particle 100 100 0 0 0) (Particle 140 100 0 0 0) = 40"
    by (simp add: wrapped_distance_def Particle_def wrap_def WORLD_WIDTH_def WORLD_HEIGHT_def
        sqrt_1600)
  show ?thesis
    using try_break_bond_distance
      [of "Bond 0 1 Covalent 1 16" "[Particle 100 100 0 0 0, Particle 140 100 0 0 0]" "0.05"]
    by (simp add: d Bond_def BOND_BREAK_THRESHOLD_def)
qed

section \<open>The early returns of try\_form\_bond\<close>

lemma dynamic_max_bonds_Inr: "dynamic_max_bonds i ps bs = Inr m \<Longrightarrow> i < length ps"
  unfolding dynamic_max_bonds_def by (auto dest!: ebind_Inr getitem_Inr)

text \<open>For a particle of the list whose type is one of the five of the tables, the
  shell deficit and the dynamic maximum are defined: the calls return, the deficit is not
  negative and the maximum lies between 0 and 5.\<close>

lemma shell_deficit_total:
  assumes "i < length ps" and "p_type (ps ! i) < 5"
  shows "\<exists>d. shell_deficit i ps bs = Inr d \<and> 0 \<le> d"
  using assms
  by (simp add: shell_deficit_def shell_fill_def getitem_def ebind_simps VALENCE_ELECTRONS_def)

lemma dynamic_max_bonds_total:
  assumes "i < length ps" and "p_type (ps ! i) < 5"
  shows "\<exists>m. dynamic_max_bonds i ps bs = Inr m \<and> 0 \<le> m \<and> m \<le> 5"
  using assms
  by (simp add: dynamic_max_bonds_def shell_deficit_def shell_fill_def getitem_def ebind_simps
      VALENCE_ELECTRONS_def Let_def)


lemma sqrt_gt_26: "sqrt x > 26 \<Longrightarrow> x > 26 * 26"
proof (rule ccontr)
  assume a: "sqrt x > 26" and "\<not> x > 26 * 26"
  then have "x \<le> 26\<^sup>2" by (simp add: power2_eq_square)
  then have "sqrt x \<le> sqrt (26\<^sup>2)" by (simp only: real_sqrt_le_iff)
  then show False using a by simp
qed

lemma try_form_bond_False_frame:
  "try_form_bond i j ps bs T g = Inr (False, ps', bs', g') \<Longrightarrow> ps' = ps \<and> bs' = bs"
  unfolding try_form_bond_def Let_def
  by (auto dest!: ebind_Inr split: if_splits prod.splits)

text \<open>
  Claim C10. Let \<open>mi\<close>, \<open>mj\<close> be what dynamic\_max\_bonds returns for the two endpoints
  and \<open>di\<close>, \<open>dj\<close> their shell deficits. If an endpoint's bond count has reached its
  dynamic maximum, or both deficits are zero, or the wrapped distance exceeds the
  formation radius, try\_form\_bond returns False, with particles, ledger and random
  source as they were. And whenever try\_form\_bond returns False, the ledger and the
  particle list (so every adjacency list) are unchanged. The four values exist for
  every pair of particles of the list with types below 5 (the two lemmas above).
\<close>

theorem try_form_bond_fails_fast:
  "(dynamic_max_bonds i ps bs = Inr mi \<and> dynamic_max_bonds j ps bs = Inr mj \<and>
    shell_deficit i ps bs = Inr di \<and> shell_deficit j ps bs = Inr dj \<and>
    (int (length (p_bonds (ps ! i))) \<ge> mi \<or> int (length (p_bonds (ps ! j))) \<ge> mj \<or>
     (di = 0 \<and> dj = 0) \<or> wrapped_distance (ps ! i) (ps ! j) > BOND_FORM_RADIUS)
    \<longrightarrow> try_form_bond i j ps bs T g = Inr (False, ps, bs, g)) \<and>
   (try_form_bond i j ps bs T g = Inr (False, ps', bs', g') \<longrightarrow> ps' = ps \<and> bs' = bs)"
proof (intro conjI impI)
  assume a: "dynamic_max_bonds i ps bs = Inr mi \<and> dynamic_max_bonds j ps bs = Inr mj \<and>
    shell_deficit i ps bs = Inr di \<and> shell_deficit j ps bs = Inr dj \<and>
    (int (length (p_bonds (ps ! i))) \<ge> mi \<or> int (length (p_bonds (ps ! j))) \<ge> mj \<or>
     (di = 0 \<and> dj = 0) \<or> wrapped_distance (ps ! i) (ps ! j) > BOND_FORM_RADIUS)"
  then have i: "i < length ps" and j: "j < length ps"
    by (auto dest: dynamic_max_bonds_Inr)
  obtain dx dy where
    w: "wrap (p_x (ps ! j) - p_x (ps ! i)) (p_y (ps ! j) - p_y (ps ! i)) = (dx, dy)"
    by (cases "wrap (p_x (ps ! j) - p_x (ps ! i)) (p_y (ps ! j) - p_y (ps ! i))")
  have far: "dx * dx + dy * dy > BOND_FORM_RADIUS * BOND_FORM_RADIUS"
    if "wrapped_distance (ps ! i) (ps ! j) > BOND_FORM_RADIUS"
    using that sqrt_gt_26 [of "dx * dx + dy * dy"]
    by (simp add: wrapped_distance_def w BOND_FORM_RADIUS_def)
  from a i j far show "try_form_bond i j ps bs T g = Inr (False, ps, bs, g)"
    by (auto simp: try_form_bond_def getitem_in ebind_simps w Let_def)
next
  assume "try_form_bond i j ps bs T g = Inr (False, ps', bs', g')"
  then show "ps' = ps" "bs' = bs" by (auto dest: try_form_bond_False_frame)
qed

theorem try_form_bond_fails_fast_witness:
  "dynamic_max_bonds 0 [Particle 100 100 0 0 4, Particle 110 100 0 0 4] [] = Inr 1 \<and>
   dynamic_max_bonds 1 [Particle 100 100 0 0 4, Particle 110 100 0 0 4] [] = Inr 1 \<and>
   shell_deficit 0 [Particle 100 100 0 0 4, Particle 110 100 0 0 4] [] = Inr 0 \<and>
   shell_deficit 1 [Particle 100 100 0 0 4, Particle 110 100 0 0 4] [] = Inr 0 \<and>
   try_form_bond 0 1 [Particle 100 100 0 0 4, Particle 110 100 0 0 4] [] 0.5 (sconst 0)
     = Inr (False, [Particle 100 100 0 0 4, Particle 110 100 0 0 4], [], sconst 0)"
proof -
  have m0: "dynamic_max_bonds 0 [Particle 100 100 0 0 4, Particle 110 100 0 0 4] [] = Inr 1"
    by (simp add: dynamic_max_bonds_def shell_deficit_def shell_fill_def getitem_def ebind_simps
        Particle_def VALENCE_ELECTRONS_def TARGET_SHELL_def TYPE_PREF_def)
  have m1: "dynamic_max_bonds 1 [Particle 100 100 0 0 4, Particle 110 100 0 0 4] [] = Inr 1"
    by (simp add: dynamic_max_bonds_def shell_deficit_def shell_fill_def getitem_def ebind_simps
        Particle_def VALENCE_ELECTRONS_def TARGET_SHELL_def TYPE_PREF_def)
  have d0: "shell_deficit 0 [Particle 100 100 0 0 4, Particle 110 100 0 0 4] [] = Inr 0"
    by (simp add: shell_deficit_def shell_fill_def getitem_def ebind_simps
        Particle_def VALENCE_ELECTRONS_def TARGET_SHELL_def)
  have d1: "shell_deficit 1 [Particle 100 100 0 0 4, Particle 110 100 0 0 4] [] = Inr 0"
    by (simp add: shell_deficit_def shell_fill_def getitem_def ebind_simps
        Particle_def VALENCE_ELECTRONS_def TARGET_SHELL_def)
  show ?thesis
    using try_form_bond_fails_fast
      [of 0 "[Particle 100 100 0 0 4, Particle 110 100 0 0 4]" "[]" 1 1 1 0 0 "0.5" "sconst 0"]
      m0 m1 d0 d1
    by simp
qed

section \<open>The neighbour query at the world boundary\<close>

text \<open>
  Claim C4 says that the neighbour query at a particle's position yields every particle
  within the force cutoff in wrapped distance, also across the world boundary. Two
  particles at \<open>x = 1\<close> and \<open>x = 799\<close>, same \<open>y\<close>, are at wrapped distance 2 and repel
  each other with a non-zero force, but they lie in the cell columns 0 and 19, and the
  query looks at the columns \<open>cx - 1, cx, cx + 1\<close> without wrapping them: queried at
  either particle, it yields that particle alone, and the force pass of step() leaves
  both force accumulators at zero.
\<close>

theorem neighbors_miss_boundary_pair:
  "wrapped_distance (Particle 1 100 0 0 0) (Particle 799 100 0 0 0) = 2 \<and>
   (2::real) < NONBONDED_RANGE \<and>
   compute_nonbonded_force (Particle 1 100 0 0 0) (Particle 799 100 0 0 0) = (1750 / 51, 0) \<and>
   ebind (insert_all 0 [Particle 1 100 0 0 0, Particle 799 100 0 0 0]
            (grid_clear \<lparr>cell_size = 42.0, grid = (\<lambda>cell. None)\<rparr>))
         (\<lambda>sg. neighbors sg 1 100) = Inr [0] \<and>
   ebind (insert_all 0 [Particle 1 100 0 0 0, Particle 799 100 0 0 0]
            (grid_clear \<lparr>cell_size = 42.0, grid = (\<lambda>cell. None)\<rparr>))
         (\<lambda>sg. neighbors sg 799 100) = Inr [1] \<and>
   step_forces
     \<lparr>sim_temperature = 1.2, sim_n_types = 1,
      sim_particles = [Particle 1 100 0 0 0, Particle 799 100 0 0 0], sim_bonds = [],
      sim_grid = \<lparr>cell_size = 42.0, grid = (\<lambda>cell. None)\<rparr>\<rparr> g
   = Inr ([(0, 0), (0, 0)],
          \<lparr>sim_temperature = 1.2, sim_n_types = 1,
           sim_particles = [Particle 1 100 0 0 0, Particle 799 100 0 0 0], sim_bonds = [],
           sim_grid = \<lparr>cell_size = 42.0,
                       grid = ((\<lambda>cell. None)((0, 2) \<mapsto> [0]))((19, 2) \<mapsto> [1])\<rparr>\<rparr>, g)"
proof (intro conjI)
  show "wrapped_distance (Particle 1 100 0 0 0) (Particle 799 100 0 0 0) = 2"
    by (simp add: wrapped_distance_def Particle_def wrap_def WORLD_WIDTH_def WORLD_HEIGHT_def)
  show "(2::real) < NONBONDED_RANGE" by (simp add: NONBONDED_RANGE_def)
  show "compute_nonbonded_force (Particle 1 100 0 0 0) (Particle 799 100 0 0 0) = (1750 / 51, 0)"
    by (simp add: compute_nonbonded_force_def Particle_def wrap_def WORLD_WIDTH_def
        WORLD_HEIGHT_def NONBONDED_RANGE_def NONBONDED_REPULSION_def)
  show "ebind (insert_all 0 [Particle 1 100 0 0 0, Particle 799 100 0 0 0]
            (grid_clear \<lparr>cell_size = 42.0, grid = (\<lambda>cell. None)\<rparr>))
         (\<lambda>sg. neighbors sg 1 100) = Inr [0]"
    by (simp add: Particle_def grid_clear_def grid_insert_def cell_coord_def ebind_simps
        neighbors_def)
  show "ebind (insert_all 0 [Particle 1 100 0 0 0, Particle 799 100 0 0 0]
            (grid_clear \<lparr>cell_size = 42.0, grid = (\<lambda>cell. None)\<rparr>))
         (\<lambda>sg. neighbors sg 799 100) = Inr [1]"
    by (simp add: Particle_def grid_clear_def grid_insert_def cell_coord_def ebind_simps
        neighbors_def)
  show "step_forces
     \<lparr>sim_temperature = 1.2, sim_n_types = 1,
      sim_particles = [Particle 1 100 0 0 0, Particle 799 100 0 0 0], sim_bonds = [],
      sim_grid = \<lparr>cell_size = 42.0, grid = (\<lambda>cell. None)\<rparr>\<rparr> g
   = Inr ([(0, 0), (0, 0)],
          \<lparr>sim_temperature = 1.2, sim_n_types = 1,
           sim_particles = [Particle 1 100 0 0 0, Particle 799 100 0 0 0], sim_bonds = [],
           sim_grid = \<lparr>cell_size = 42.0,
                       grid = ((\<lambda>cell. None)((0, 2) \<mapsto> [0]))((19, 2) \<mapsto> [1])\<rparr>\<rparr>, g)"
    by (simp add: step_forces_def ebind_simps pair_row_def getitem_def Particle_def
        grid_clear_def grid_insert_def cell_coord_def neighbors_def pair_body_def)
qed

section \<open>Already bonded pairs in the pair pass of step()\<close>

text \<open>
  Claim C3 as stated: a yielded pair \<open>i < j\<close> with \<open>j\<close> already in \<open>i\<close>'s adjacency list
  is still routed through reaction evaluation. Two bonded particles 10 apart, the second
  moving at speed 8: \_process\_reactions would pull their velocities together
  (prebond\_damp), but the inner loop body of step() leaves the whole state as it was.
\<close>

theorem bonded_pair_not_routed_counterexample:
  "1 \<in> set (p_bonds ([(Particle 100 100 0 0 0)\<lparr>p_bonds := [1]\<rparr>,
                       (Particle 110 100 8 0 0)\<lparr>p_bonds := [0]\<rparr>] ! 0)) \<and>
   pair_body 0 1 0.5
     ([0, 0], [0, 0],
      [(Particle 100 100 0 0 0)\<lparr>p_bonds := [1]\<rparr>, (Particle 110 100 8 0 0)\<lparr>p_bonds := [0]\<rparr>],
      [(Bond 0 1 Covalent 1 12.5)\<lparr>b_dipole := (- 1, 0)\<rparr>], sconst 0)
   = Inr ([0, 0], [0, 0],
      [(Particle 100 100 0 0 0)\<lparr>p_bonds := [1]\<rparr>, (Particle 110 100 8 0 0)\<lparr>p_bonds := [0]\<rparr>],
      [(Bond 0 1 Covalent 1 12.5)\<lparr>b_dipole := (- 1, 0)\<rparr>], sconst 0) \<and>
   process_reactions 0 1 0.5
      [(Particle 100 100 0 0 0)\<lparr>p_bonds := [1]\<rparr>, (Particle 110 100 8 0 0)\<lparr>p_bonds := [0]\<rparr>]
      [(Bond 0 1 Covalent 1 12.5)\<lparr>b_dipole := (- 1, 0)\<rparr>] (sconst 0)
   = Inr ([(Particle 100 100 1 0 0)\<lparr>p_bonds := [1]\<rparr>, (Particle 110 100 7 0 0)\<lparr>p_bonds := [0]\<rparr>],
          [(Bond 0 1 Covalent 1 12.5)\<lparr>b_dipole := (- 1, 0)\<rparr>], sconst 0)"
proof (intro conjI)
  show "1 \<in> set (p_bonds ([(Particle 100 100 0 0 0)\<lparr>p_bonds := [1]\<rparr>,
                       (Particle 110 100 8 0 0)\<lparr>p_bonds := [0]\<rparr>] ! 0))"
    by simp
  show "pair_body 0 1 0.5
     ([0, 0], [0, 0],
      [(Particle 100 100 0 0 0)\<lparr>p_bonds := [1]\<rparr>, (Particle 110 100 8 0 0)\<lparr>p_bonds := [0]\<rparr>],
      [(Bond 0 1 Covalent 1 12.5)\<lparr>b_dipole := (- 1, 0)\<rparr>], sconst 0)
   = Inr ([0, 0], [0, 0],
      [(Particle 100 100 0 0 0)\<lparr>p_bonds := [1]\<rparr>, (Particle 110 100 8 0 0)\<lparr>p_bonds := [0]\<rparr>],
      [(Bond 0 1 Covalent 1 12.5)\<lparr>b_dipole := (- 1, 0)\<rparr>], sconst 0)"
    by (simp add: pair_body_def getitem_def ebind_simps)
  show "process_reactions 0 1 0.5
      [(Particle 100 100 0 0 0)\<lparr>p_bonds := [1]\<rparr>, (Particle 110 100 8 0 0)\<lparr>p_bonds := [0]\<rparr>]
      [(Bond 0 1 Covalent 1 12.5)\<lparr>b_dipole := (- 1, 0)\<rparr>] (sconst 0)
   = Inr ([(Particle 100 100 1 0 0)\<lparr>p_bonds := [1]\<rparr>, (Particle 110 100 7 0 0)\<lparr>p_bonds := [0]\<rparr>],
          [(Bond 0 1 Covalent 1 12.5)\<lparr>b_dipole := (- 1, 0)\<rparr>], sconst 0)"
    by (simp add: react_defs chem_defs chem_consts cong: ebind_weak_cong)
qed

text \<open>
  Claim C3, amended: for a yielded \<open>j\<close> that is already in \<open>i\<close>'s adjacency list, the
  inner loop body of step() skips the non-bonded force and the reaction evaluation alike:
  the force accumulators, the particles, the ledger and the random source are unchanged.
  Only a pair \<open>i < j\<close> that is not bonded gets the force and is routed through
  \_process\_reactions.
\<close>

theorem bonded_pair_skipped:
  "(i < length parts \<and> j \<in> set (p_bonds (parts ! i)) \<longrightarrow>
      pair_body i j T (fx, fy, parts, bnds, g) = Inr (fx, fy, parts, bnds, g)) \<and>
   (i < j \<and> j < length parts \<and> j \<notin> set (p_bonds (parts ! i)) \<longrightarrow>
      pair_body i j T (fx, fy, parts, bnds, g) =
        ebind (process_reactions i j T parts bnds g) (\<lambda>(parts1, bnds1, g1).
          Inr (fx[i := fx ! i + fst (compute_nonbonded_force (parts ! i) (parts ! j)),
                  j := (fx[i := fx ! i + fst (compute_nonbonded_force (parts ! i) (parts ! j))]) ! j
                       - fst (compute_nonbonded_force (parts ! i) (parts ! j))],
               fy[i := fy ! i + snd (compute_nonbonded_force (parts ! i) (parts ! j)),
                  j := (fy[i := fy ! i + snd (compute_nonbonded_force (parts ! i) (parts ! j))]) ! j
                       - snd (compute_nonbonded_force (parts ! i) (parts ! j))],
               parts1, bnds1, g1)))"
  by (simp add: pair_body_def getitem_def ebind_simps Let_def)

theorem bonded_pair_skipped_witness:
  "0 < length [(Particle 100 100 0 0 0)\<lparr>p_bonds := [1]\<rparr>,
               (Particle 110 100 8 0 0)\<lparr>p_bonds := [0]\<rparr>] \<and>
   1 \<in> set (p_bonds ([(Particle 100 100 0 0 0)\<lparr>p_bonds := [1]\<rparr>,
                       (Particle 110 100 8 0 0)\<lparr>p_bonds := [0]\<rparr>] ! 0)) \<and>
   pair_body 0 1 0.5
     ([0, 0], [0, 0],
      [(Particle 100 100 0 0 0)\<lparr>p_bonds := [1]\<rparr>, (Particle 110 100 8 0 0)\<lparr>p_bonds := [0]\<rparr>],
      [(Bond 0 1 Covalent 1 12.5)\<lparr>b_dipole := (- 1, 0)\<rparr>], sconst 0)
   = Inr ([0, 0], [0, 0],
      [(Particle 100 100 0 0 0)\<lparr>p_bonds := [1]\<rparr>, (Particle 110 100 8 0 0)\<lparr>p_bonds := [0]\<rparr>],
      [(Bond 0 1 Covalent 1 12.5)\<lparr>b_dipole := (- 1, 0)\<rparr>], sconst 0) \<and>
   (0::nat) < 1 \<and> 1 < length [Particle 100 100 0 0 0, Particle 110 100 0 0 4] \<and>
   1 \<notin> set (p_bonds ([Particle 100 100 0 0 0, Particle 110 100 0 0 4] ! 0)) \<and>
   pair_body 0 1 0.5
     ([0, 0], [0, 0], [Particle 100 100 0 0 0, Particle 110 100 0 0 4], [], sconst 0)
   = ebind (process_reactions 0 1 0.5 [Particle 100 100 0 0 0, Particle 110 100 0 0 4] []
             (sconst 0))
       (\<lambda>(parts1, bnds1, g1). Inr ([- (3 / 5), 3 / 5], [0, 0], parts1, bnds1, g1))"
proof -
  have f: "compute_nonbonded_force (Particle 100 100 0 0 0) (Particle 110 100 0 0 4) = (- (3 / 5), 0)"
    by (simp add: compute_nonbonded_force_def Particle_def wrap_def WORLD_WIDTH_def
        WORLD_HEIGHT_def sqrt_100 phys_consts)
  show ?thesis
    using bonded_pair_skipped
      [of 0 "[(Particle 100 100 0 0 0)\<lparr>p_bonds := [1]\<rparr>,
              (Particle 110 100 8 0 0)\<lparr>p_bonds := [0]\<rparr>]" 1 "0.5" "[0, 0]" "[0, 0]"
          "[(Bond 0 1 Covalent 1 12.5)\<lparr>b_dipole := (- 1, 0)\<rparr>]" "sconst 0"]
      bonded_pair_skipped
      [of 0 "[Particle 100 100 0 0 0, Particle 110 100 0 0 4]" 1 "0.5" "[0, 0]" "[0, 0]"
          "[]" "sconst 0"]
    by (simp add: f) (simp add: Particle_def)
qed

section \<open>A step() that leaves two bonds for one pair\<close>

text \<open>The run from \<open>sim_a\<close>, call by call: the constructor, the rebuilt grid, the three
  rows of the pair pass, the pass over the ledger, and the whole of step() before the
  integrator.\<close>

lemma sim_a_init:
  "Simulation_init 3 1 1.2
     (0.1475 ## 0.125 ## 0.5 ## 0.5 ## 0.125 ## 0.125 ## 0.5 ## 0.5 ##
      0.1025 ## 0.125 ## 0.5 ## 0.5 ## g) = (sim_a, g)"
  by (simp add: Simulation_init_def sim_a_def create_one_def random_uniform_def
      numeral_3_eq_3 numeral_2_eq_2 WORLD_WIDTH_def WORLD_HEIGHT_def)

lemma sim_a_fields:
  "sim_particles sim_a = [pa0, pa1, pa2]"
  "sim_bonds sim_a = []" "sim_temperature sim_a = 1.2"
  "sim_grid sim_a = grid_empty"
  by (simp_all add: sim_a_def)

lemma sim_a_grid:
  "insert_all 0 [pa0, pa1, pa2]
     (grid_clear grid_empty)
   = Inr grid_filled"
  by (simp add: Particle_def grid_clear_def grid_insert_def cell_coord_def ebind_simps
      numeral_2_eq_2)

lemma sim_a_row0:
  "pair_row 0 grid_filled 1.2
     ([0, 0, 0], [0, 0, 0], [pa0, pa1, pa2], [], 0 ## g)
   = Inr ([1 / 2, - (1 / 3), - (1 / 6)], [0, 0, 0],
          [pa0\<lparr>p_bonds := [1]\<rparr>, pa1\<lparr>p_bonds := [0]\<rparr>, pa2],
          [(Bond 0 1 Covalent 1 18)\<lparr>b_dipole := (- 1, 0)\<rparr>], g)"
  by (simp add: row_defs phys_consts react_defs chem_defs chem_consts sqrt_324 sqrt_1296
      cong: ebind_weak_cong)

lemma sim_a_row1:
  "pair_row 1 grid_filled 1.2
     ([1 / 2, - (1 / 3), - (1 / 6)], [0, 0, 0],
      [pa0\<lparr>p_bonds := [1]\<rparr>, pa1\<lparr>p_bonds := [0]\<rparr>, pa2],
      [(Bond 0 1 Covalent 1 18)\<lparr>b_dipole := (- 1, 0)\<rparr>], 0.99 ## 0 ## 0 ## 0.5 ## g)
   = Inr ([1 / 2, 0, - (1 / 2)], [0, 0, 0],
          [pa0, pa1\<lparr>p_bonds := [2, 2]\<rparr>, pa2\<lparr>p_bonds := [1, 1]\<rparr>],
          [(Bond 1 2 Covalent 1 18)\<lparr>b_dipole := (- 1, 0)\<rparr>, (Bond 1 2 Covalent 1 18)\<lparr>b_dipole := (- 1, 0)\<rparr>], g)"
  by (simp add: row_defs phys_consts react_defs chem_defs chem_consts sqrt_324 sqrt_1296
      cong: ebind_weak_cong)

lemma sim_a_row2:
  "pair_row 2 grid_filled 1.2
     ([1 / 2, 0, - (1 / 2)], [0, 0, 0],
      [pa0, pa1\<lparr>p_bonds := [2, 2]\<rparr>, pa2\<lparr>p_bonds := [1, 1]\<rparr>],
      [(Bond 1 2 Covalent 1 18)\<lparr>b_dipole := (- 1, 0)\<rparr>, (Bond 1 2 Covalent 1 18)\<lparr>b_dipole := (- 1, 0)\<rparr>], g)
   = Inr ([1 / 2, 0, - (1 / 2)], [0, 0, 0],
          [pa0, pa1\<lparr>p_bonds := [2, 2]\<rparr>, pa2\<lparr>p_bonds := [1, 1]\<rparr>],
          [(Bond 1 2 Covalent 1 18)\<lparr>b_dipole := (- 1, 0)\<rparr>, (Bond 1 2 Covalent 1 18)\<lparr>b_dipole := (- 1, 0)\<rparr>], g)"
  by (simp add: row_defs getitem_def ebind_simps Particle_def)

lemma sim_a_pairs:
  "pair_loop [0, 1, 2] grid_filled 1.2
     ([0, 0, 0], [0, 0, 0], [pa0, pa1, pa2], [],
      0 ## 0.99 ## 0 ## 0 ## 0.5 ## g)
   = Inr ([1 / 2, 0, - (1 / 2)], [0, 0, 0],
          [pa0, pa1\<lparr>p_bonds := [2, 2]\<rparr>, pa2\<lparr>p_bonds := [1, 1]\<rparr>],
          [(Bond 1 2 Covalent 1 18)\<lparr>b_dipole := (- 1, 0)\<rparr>, (Bond 1 2 Covalent 1 18)\<lparr>b_dipole := (- 1, 0)\<rparr>], g)"
  by (simp only: pair_loop.simps sim_a_row0 sim_a_row1 sim_a_row2 sum.case)

lemma sim_a_ledger_pass:
  "bond_loop 0 [(Bond 1 2 Covalent 1 18)\<lparr>b_dipole := (- 1, 0)\<rparr>, (Bond 1 2 Covalent 1 18)\<lparr>b_dipole := (- 1, 0)\<rparr>]
     [pa0, pa1\<lparr>p_bonds := [2, 2]\<rparr>, pa2\<lparr>p_bonds := [1, 1]\<rparr>] 1.2
     [1 / 2, 0, - (1 / 2)] [0, 0, 0] []
   = Inr ([(Bond 1 2 Covalent 1 18)\<lparr>b_dipole := (- 1, 0), b_age := 1\<rparr>,
           (Bond 1 2 Covalent 1 18)\<lparr>b_dipole := (- 1, 0), b_age := 1\<rparr>],
          [1 / 2, 0, - (1 / 2)], [0, 0, 0], [])"
  by (simp add: bond_pass_defs phys_consts chem_defs chem_consts sqrt_324
      cong: ebind_weak_cong)

lemma sim_a_aux:
  "replicate (length [pa0, pa1, pa2]) (0.0::real) = [0, 0, 0]"
  "[0..<length [pa0, pa1, pa2]] = [0, 1, 2]"
  "\<not> (1.2::real) < 1.0"
  by (simp_all add: numeral_3_eq_3 upt_rec)

lemma sim_a_step_forces:
  "step_forces sim_a (0 ## 0.99 ## 0 ## 0 ## 0.5 ## g)
   = Inr ([(1 / 2, 0), (0, 0), (- (1 / 2), 0)], sim_a_stepped, g)"
proof -
  have "step_forces sim_a (0 ## 0.99 ## 0 ## 0 ## 0.5 ## g)
   = Inr ([(1 / 2, 0), (0, 0), (- (1 / 2), 0)],
          sim_a\<lparr>sim_particles := [pa0, pa1\<lparr>p_bonds := [2, 2]\<rparr>, pa2\<lparr>p_bonds := [1, 1]\<rparr>],
                sim_bonds := [(Bond 1 2 Covalent 1 18)\<lparr>b_dipole := (- 1, 0), b_age := 1\<rparr>,
                              (Bond 1 2 Covalent 1 18)\<lparr>b_dipole := (- 1, 0), b_age := 1\<rparr>],
                sim_grid := grid_filled\<rparr>, g)"
    by (simp only: step_forces_def Let_def sim_a_fields sim_a_aux sim_a_grid ebind_simps
        sim_a_pairs prod.case sim_a_ledger_pass rev.simps break_loop.simps if_False
        zip_Cons_Cons zip_Nil)
  then show ?thesis by (simp add: sim_a_def sim_a_stepped_def)
qed

lemma sim_a_step: "step sim_a (0 ## 0.99 ## 0 ## 0 ## 0.5 ## g) = Inl NameError"
proof -
  have "integrate (sim_particles sim_a_stepped) [(1 / 2, 0), (0, 0), (- (1 / 2), 0)]
          (sim_temperature sim_a_stepped) g = Inl NameError"
    by (rule integrate_nonempty_raises) (simp_all add: sim_a_stepped_def)
  then show ?thesis
    unfolding step_def by (simp only: sim_a_step_forces ebind_simps prod.case)
qed

text \<open>
  Claim C2 says that ledger/adjacency consistency holds after any sequence of step()
  calls. The code breaks it in one call. \<open>Simulation(3, 1, 1.2)\<close> can build \<open>sim_a\<close>,
  which is consistent (no bonds at all). In its first step(), particles 0 and 1 bond;
  for the pair (1, 2) try\_form\_bond fails on its random draw, reaction\_addition then
  forms the bond 1-2, and reaction\_substitution, called right after on the same pair,
  finds particle 0 to be the weakest neighbour of 1, removes the bond 1-0 and calls
  try\_form\_bond(1, 2) again, which appends a second bond 1-2: no function on this
  path checks that the pair is bonded already. When step() reaches the integrator (which
  raises, see C1), the ledger holds two bonds for the pair (1, 2) and the adjacency lists
  of 1 and 2 hold a duplicate.
\<close>

theorem step_leaves_duplicate_bond:
  "Simulation_init 3 1 1.2
     (0.1475 ## 0.125 ## 0.5 ## 0.5 ## 0.125 ## 0.125 ## 0.5 ## 0.5 ##
      0.1025 ## 0.125 ## 0.5 ## 0.5 ## 0 ## 0.99 ## 0 ## 0 ## 0.5 ## g)
     = (sim_a, 0 ## 0.99 ## 0 ## 0 ## 0.5 ## g) \<and>
   ledger_consistent (sim_particles sim_a) (sim_bonds sim_a) \<and>
   step_forces sim_a (0 ## 0.99 ## 0 ## 0 ## 0.5 ## g)
     = Inr ([(1 / 2, 0), (0, 0), (- (1 / 2), 0)], sim_a_stepped, g) \<and>
   step sim_a (0 ## 0.99 ## 0 ## 0 ## 0.5 ## g) = Inl NameError \<and>
   \<not> ledger_pairs_unique (sim_bonds sim_a_stepped) \<and>
   \<not> adjacency_duplicate_free (sim_particles sim_a_stepped) \<and>
   \<not> ledger_consistent (sim_particles sim_a_stepped) (sim_bonds sim_a_stepped)"
proof (intro conjI)
  show "Simulation_init 3 1 1.2
     (0.1475 ## 0.125 ## 0.5 ## 0.5 ## 0.125 ## 0.125 ## 0.5 ## 0.5 ##
      0.1025 ## 0.125 ## 0.5 ## 0.5 ## 0 ## 0.99 ## 0 ## 0 ## 0.5 ## g)
     = (sim_a, 0 ## 0.99 ## 0 ## 0 ## 0.5 ## g)"
    by (rule sim_a_init)
  show "ledger_consistent (sim_particles sim_a) (sim_bonds sim_a)"
    by (simp add: sim_a_def ledger_consistent_def adjacency_mirrors_ledger_def
        ledger_pairs_unique_def adjacency_duplicate_free_def partners_def Particle_def
        numeral_3_eq_3)
  show "step_forces sim_a (0 ## 0.99 ## 0 ## 0 ## 0.5 ## g)
     = Inr ([(1 / 2, 0), (0, 0), (- (1 / 2), 0)], sim_a_stepped, g)"
    by (rule sim_a_step_forces)
  show "step sim_a (0 ## 0.99 ## 0 ## 0 ## 0.5 ## g) = Inl NameError"
    by (rule sim_a_step)
  show u: "\<not> ledger_pairs_unique (sim_bonds sim_a_stepped)"
    by (simp add: sim_a_stepped_def ledger_pairs_unique_def)
  show "\<not> adjacency_duplicate_free (sim_particles sim_a_stepped)"
    by (simp add: sim_a_stepped_def adjacency_duplicate_free_def)
  from u show "\<not> ledger_consistent (sim_particles sim_a_stepped) (sim_bonds sim_a_stepped)"
    by (simp add: ledger_consistent_def)
qed

section \<open>The valence bound\<close>

subsection \<open>What the operations do to the adjacency lists\<close>

lemma dynamic_max_bonds_le: "dynamic_max_bonds i ps bs = Inr m \<Longrightarrow> m \<le> 5"
  unfolding dynamic_max_bonds_def Let_def by (auto dest!: ebind_Inr)

lemma new_bond_props:
  "new_bond i j p_i p_j bt order' r2 = Inr b \<Longrightarrow>
     b_i b = i \<and> b_j b = j \<and> 12.5 \<le> b_length b \<and> b_length b \<le> 22"
  unfolding new_bond_def Let_def
  by (auto dest!: ebind_Inr split: if_splits simp: Bond_def initial_length_def)

lemma try_form_bond_True:
  assumes "try_form_bond i j ps bs T g = Inr (True, ps', bs', g')"
  obtains mi mj b where "i < length ps" and "j < length ps"
    and "dynamic_max_bonds i ps bs = Inr mi" and "dynamic_max_bonds j ps bs = Inr mj"
    and "int (length (p_bonds (ps ! i))) < mi" and "int (length (p_bonds (ps ! j))) < mj"
    and "b_i b = i" and "b_j b = j" and "12.5 \<le> b_length b" and "b_length b \<le> 22"
    and "append_bond i j b ps bs = (ps', bs')"
  using assms unfolding try_form_bond_def Let_def
  by (auto dest!: ebind_Inr getitem_Inr new_bond_props split: if_splits prod.splits)

lemma try_form_bond_result:
  assumes "try_form_bond i j ps bs T g = Inr (r, ps', bs', g')"
  shows "(\<not> r \<and> ps' = ps \<and> bs' = bs) \<or>
         (r \<and> (\<exists>b. b_i b = i \<and> b_j b = j \<and> append_bond i j b ps bs = (ps', bs')))"
proof (cases r)
  case True
  with assms show ?thesis by (auto elim!: try_form_bond_True)
next
  case False
  with assms show ?thesis by (auto dest: try_form_bond_False_frame)
qed


lemma valence_capped_nth:
  "valence_capped ps \<Longrightarrow> i < length ps \<Longrightarrow> length (p_bonds (ps ! i)) \<le> 5"
  by (simp add: valence_capped_def list_all_length)

lemma valence_capped_update:
  "valence_capped ps \<Longrightarrow> length (p_bonds p) \<le> 5 \<Longrightarrow> valence_capped (ps[i := p])"
  unfolding valence_capped_def list_all_iff
  using set_update_subset_insert [of ps i p] by auto

lemma valence_capped_same_bonds:
  "map p_bonds ps' = map p_bonds ps \<Longrightarrow> valence_capped ps \<Longrightarrow> valence_capped ps'"
proof -
  assume m: "map p_bonds ps' = map p_bonds ps" and v: "valence_capped ps"
  have "list_all (\<lambda>l. length l \<le> 5) (map p_bonds ps)"
    using v by (simp add: valence_capped_def list_all_iff)
  then have "list_all (\<lambda>l. length l \<le> 5) (map p_bonds ps')" by (simp only: m)
  then show ?thesis by (simp add: valence_capped_def list_all_iff)
qed

lemma append_bond_capped:
  assumes "valence_capped ps" and "i \<noteq> j" and "i < length ps" and "j < length ps"
    and "length (p_bonds (ps ! i)) < 5" and "length (p_bonds (ps ! j)) < 5"
    and "append_bond i j b ps bs = (ps', bs')"
  shows "valence_capped ps'"
proof -
  from assms(7) have ps': "ps' = (ps[i := (ps ! i)\<lparr>p_bonds := p_bonds (ps ! i) @ [j]\<rparr>])
      [j := (ps ! j)\<lparr>p_bonds := p_bonds (ps ! j) @ [i]\<rparr>]"
    using assms(2) by (auto simp: append_bond_def Let_def)
  show ?thesis unfolding ps'
    by (intro valence_capped_update assms(1)) (use assms(5,6) in simp_all)
qed

lemma try_form_bond_capped:
  assumes "try_form_bond i j ps bs T g = Inr (r, ps', bs', g')" and "i \<noteq> j"
    and "valence_capped ps"
  shows "valence_capped ps'"
proof (cases r)
  case False
  with assms show ?thesis by (auto dest: try_form_bond_False_frame)
next
  case True
  with assms(1) obtain mi mj b where h: "i < length ps" "j < length ps"
    "dynamic_max_bonds i ps bs = Inr mi" "dynamic_max_bonds j ps bs = Inr mj"
    "int (length (p_bonds (ps ! i))) < mi" "int (length (p_bonds (ps ! j))) < mj"
    "append_bond i j b ps bs = (ps', bs')"
    by (auto elim!: try_form_bond_True)
  from h(3,5) have "length (p_bonds (ps ! i)) < 5" by (auto dest: dynamic_max_bonds_le)
  moreover from h(4,6) have "length (p_bonds (ps ! j)) < 5" by (auto dest: dynamic_max_bonds_le)
  ultimately show ?thesis using append_bond_capped [OF assms(3,2) h(1,2) _ _ h(7)] by blast
qed

lemma remove_bond_between_capped:
  assumes "remove_bond_between i j bs ps = Inr (bs', ps')" and "valence_capped ps"
  shows "valence_capped ps'"
proof -
  from assms(1) obtain p_i p_j where
    pi: "getitem ps i = Inr p_i"
    and pj: "getitem (if j \<in> set (p_bonds p_i)
                      then ps[i := p_i\<lparr>p_bonds := remove1 j (p_bonds p_i)\<rparr>] else ps) j = Inr p_j"
    and ps': "ps' = (if i \<in> set (p_bonds p_j)
                     then (if j \<in> set (p_bonds p_i)
                           then ps[i := p_i\<lparr>p_bonds := remove1 j (p_bonds p_i)\<rparr>] else ps)
                            [j := p_j\<lparr>p_bonds := remove1 i (p_bonds p_j)\<rparr>]
                     else (if j \<in> set (p_bonds p_i)
                           then ps[i := p_i\<lparr>p_bonds := remove1 j (p_bonds p_i)\<rparr>] else ps))"
    unfolding remove_bond_between_def Let_def by (auto dest!: ebind_Inr)
  define ps1 where "ps1 = (if j \<in> set (p_bonds p_i)
                           then ps[i := p_i\<lparr>p_bonds := remove1 j (p_bonds p_i)\<rparr>] else ps)"
  from pi have i: "i < length ps" "p_i = ps ! i" by (auto dest: getitem_Inr)
  have "length (remove1 j (p_bonds p_i)) \<le> 5"
    using valence_capped_nth [OF assms(2) i(1)] i(2)
    by (metis le_trans length_remove1 diff_le_self order_refl)
  then have v1: "valence_capped ps1"
    unfolding ps1_def using assms(2) by (auto intro: valence_capped_update)
  from pj have "getitem ps1 j = Inr p_j" by (simp only: ps1_def)
  then have j: "j < length ps1" "p_j = ps1 ! j" by (auto dest: getitem_Inr)
  have "length (remove1 i (p_bonds p_j)) \<le> 5"
    using valence_capped_nth [OF v1 j(1)] j(2)
    by (metis le_trans length_remove1 diff_le_self order_refl)
  then show ?thesis using v1 unfolding ps' ps1_def [symmetric]
    by (auto intro: valence_capped_update)
qed

lemma same_chem_update:
  assumes "p_type q = p_type (ps ! i)" and "p_bonds q = p_bonds (ps ! i)"
  shows "map (\<lambda>p. (p_type p, p_bonds p)) (ps[i := q]) = map (\<lambda>p. (p_type p, p_bonds p)) ps"
proof (cases "i < length ps")
  case True
  have "map (\<lambda>p. (p_type p, p_bonds p)) (ps[i := q])
        = (map (\<lambda>p. (p_type p, p_bonds p)) ps)[i := (p_type q, p_bonds q)]"
    by (simp add: map_update)
  also have "\<dots> = map (\<lambda>p. (p_type p, p_bonds p)) ps"
    using True assms by (simp add: list_update_same_conv)
  finally show ?thesis .
next
  case False
  then have "ps[i := q] = ps" by (simp add: list_update_beyond)
  then show ?thesis by simp
qed

lemma nudge_velocities_bonds:
  "map (\<lambda>p. (p_type p, p_bonds p)) (nudge_velocities i j rvx rvy capture ps)
   = map (\<lambda>p. (p_type p, p_bonds p)) ps"
proof -
  have step: "map (\<lambda>p. (p_type p, p_bonds p)) (xs[k := (xs ! k)\<lparr>p_vx := v\<rparr>])
              = map (\<lambda>p. (p_type p, p_bonds p)) xs"
             "map (\<lambda>p. (p_type p, p_bonds p)) (xs[k := (xs ! k)\<lparr>p_vy := v\<rparr>])
              = map (\<lambda>p. (p_type p, p_bonds p)) xs" for xs k v
    by (simp_all add: same_chem_update)
  show ?thesis by (simp only: nudge_velocities_def Let_def step)
qed

lemma prebond_damp_bonds:
  assumes "prebond_damp i j ps bs T = Inr ps'"
  shows "map (\<lambda>p. (p_type p, p_bonds p)) ps' = map (\<lambda>p. (p_type p, p_bonds p)) ps"
  using assms unfolding prebond_damp_def Let_def
  by (auto dest!: ebind_Inr split: if_splits prod.splits simp: nudge_velocities_bonds)


lemma same_chem_capped:
  assumes "map (\<lambda>p. (p_type p, p_bonds p)) ps' = map (\<lambda>p. (p_type p, p_bonds p)) ps"
    and "valence_capped ps"
  shows "valence_capped ps'"
proof -
  have "map snd (map (\<lambda>p. (p_type p, p_bonds p)) ps')
        = map snd (map (\<lambda>p. (p_type p, p_bonds p)) ps)"
    by (simp only: assms(1))
  then have "map p_bonds ps' = map p_bonds ps" by (simp add: comp_def)
  then show ?thesis using assms(2) by (rule valence_capped_same_bonds)
qed

lemma reaction_addition_capped:
  assumes "reaction_addition i j bs ps T g = Inr (r, ps', bs', g')" and "i \<noteq> j"
    and "valence_capped ps"
  shows "valence_capped ps'"
  using assms unfolding reaction_addition_def
  by (auto dest!: ebind_Inr split: if_splits dest: try_form_bond_capped)

lemma reaction_substitution_capped:
  assumes "reaction_substitution i j bs ps T g = Inr (r, ps', bs', g')" and "i \<noteq> j"
    and "valence_capped ps"
  shows "valence_capped ps'"
  using assms unfolding reaction_substitution_def
  by (auto dest!: ebind_Inr split: if_splits option.splits)
     (metis try_form_bond_capped remove_bond_between_capped)

lemma reaction_dissociation_capped:
  assumes "reaction_dissociation i bs ps T g = Inr (r, ps', bs', g')"
    and "valence_capped ps"
  shows "valence_capped ps'"
  using assms unfolding reaction_dissociation_def Let_def
  by (auto dest!: ebind_Inr split: if_splits prod.splits dest: remove_bond_between_capped)

lemma reachable_capped: "reachable ps bs \<Longrightarrow> valence_capped ps"
proof (induction rule: reachable.induct)
  case (start ps)
  then show ?case by (simp add: valence_capped_def list_all_iff)
next
  case (damp ps bs i j T ps')
  then show ?case by (auto dest: prebond_damp_bonds same_chem_capped)
next
  case (form ps bs i j T g r ps' bs' g')
  then show ?case by (auto dest: try_form_bond_capped)
next
  case (addition ps bs i j T g r ps' bs' g')
  then show ?case by (auto dest: reaction_addition_capped)
next
  case (substitution ps bs i j T g r ps' bs' g')
  then show ?case by (auto dest: reaction_substitution_capped)
next
  case (dissociation ps bs i T g r ps' bs' g')
  then show ?case by (auto dest: reaction_dissociation_capped)
next
  case (removal ps bs i j bs' ps')
  then show ?case by (auto dest: remove_bond_between_capped)
next
  case (ageing ps bs bs')
  then show ?case by simp
next
  case (motion ps bs ps')
  then show ?case by (auto dest: same_chem_capped)
qed

subsection \<open>step() stays inside the reachable states\<close>

lemma process_reactions_reachable:
  assumes "process_reactions i j T ps bs g = Inr (ps', bs', g')" and "i \<noteq> j"
    and "reachable ps bs"
  shows "reachable ps' bs'"
proof -
  from assms(1) consider (far) "ps' = ps" "bs' = bs"
    | (near) ps1 formed ps2 bs2 g2 where "prebond_damp i j ps bs T = Inr ps1"
        "try_form_bond i j ps1 bs T g = Inr (formed, ps2, bs2, g2)"
        "(if formed then Inr (ps2, bs2, g2)
          else ebind (reaction_addition i j bs2 ps2 T g2) (\<lambda>(added, ps3, bs3, g3).
               ebind (reaction_substitution i j bs3 ps3 T g3) (\<lambda>(substituted, ps4, bs4, g4).
               ebind (reaction_dissociation i bs4 ps4 T g4) (\<lambda>(dissociated, ps5, bs5, g5).
                 Inr (ps5, bs5, g5))))) = Inr (ps', bs', g')"
    unfolding process_reactions_def Let_def
    by (auto dest!: ebind_Inr split: if_splits prod.splits)
  then show ?thesis
  proof cases
    case far
    with assms(3) show ?thesis by simp
  next
    case near
    have r1: "reachable ps1 bs" using assms(3) near(1) by (rule reachable.damp)
    have r2: "reachable ps2 bs2" using r1 assms(2) near(2) by (rule reachable.form)
    show ?thesis
    proof (cases formed)
      case True
      with near(3) r2 show ?thesis by simp
    next
      case False
      with near(3) obtain added ps3 bs3 g3 substituted ps4 bs4 g4 dissociated where
        a: "reaction_addition i j bs2 ps2 T g2 = Inr (added, ps3, bs3, g3)"
        and s: "reaction_substitution i j bs3 ps3 T g3 = Inr (substituted, ps4, bs4, g4)"
        and d: "reaction_dissociation i bs4 ps4 T g4 = Inr (dissociated, ps', bs', g')"
        by (auto dest!: ebind_Inr split: prod.splits)
      have "reachable ps3 bs3" using r2 assms(2) a by (rule reachable.addition)
      then have "reachable ps4 bs4" using assms(2) s by (rule reachable.substitution)
      then show ?thesis using d by (rule reachable.dissociation)
    qed
  qed
qed

lemma pair_body_reachable:
  assumes "pair_body i j T (fx, fy, ps, bs, g) = Inr (fx', fy', ps', bs', g')"
    and "reachable ps bs"
  shows "reachable ps' bs'"
  using assms unfolding pair_body_def Let_def
  by (auto dest!: ebind_Inr split: if_splits prod.splits
      dest: process_reactions_reachable)

lemma neighbor_loop_reachable:
  "neighbor_loop i js T (fx, fy, ps, bs, g) = Inr (fx', fy', ps', bs', g') \<Longrightarrow>
   reachable ps bs \<Longrightarrow> reachable ps' bs'"
proof (induction js arbitrary: fx fy ps bs g)
  case Nil
  then show ?case by simp
next
  case (Cons j js)
  from Cons.prems(1) obtain fx1 fy1 ps1 bs1 g1 where
    b: "pair_body i j T (fx, fy, ps, bs, g) = Inr (fx1, fy1, ps1, bs1, g1)"
    and l: "neighbor_loop i js T (fx1, fy1, ps1, bs1, g1) = Inr (fx', fy', ps', bs', g')"
    by (auto split: sum.splits)
  from b Cons.prems(2) have "reachable ps1 bs1" by (rule pair_body_reachable)
  with l show ?case by (rule Cons.IH)
qed

lemma pair_row_reachable:
  "pair_row i sg T (fx, fy, ps, bs, g) = Inr (fx', fy', ps', bs', g') \<Longrightarrow>
   reachable ps bs \<Longrightarrow> reachable ps' bs'"
  unfolding pair_row_def
  by (auto dest!: ebind_Inr dest: neighbor_loop_reachable)

lemma pair_loop_reachable:
  "pair_loop is sg T (fx, fy, ps, bs, g) = Inr (fx', fy', ps', bs', g') \<Longrightarrow>
   reachable ps bs \<Longrightarrow> reachable ps' bs'"
proof (induction "is" arbitrary: fx fy ps bs g)
  case Nil
  then show ?case by simp
next
  case (Cons i "is")
  from Cons.prems(1) obtain fx1 fy1 ps1 bs1 g1 where
    b: "pair_row i sg T (fx, fy, ps, bs, g) = Inr (fx1, fy1, ps1, bs1, g1)"
    and l: "pair_loop is sg T (fx1, fy1, ps1, bs1, g1) = Inr (fx', fy', ps', bs', g')"
    by (auto split: sum.splits)
  from b Cons.prems(2) have "reachable ps1 bs1" by (rule pair_row_reachable)
  with l show ?case by (rule Cons.IH)
qed

lemma bond_body_ages:
  "bond_body b_idx b0 ps T fx fy tb = Inr (b, fx', fy', tb') \<Longrightarrow> b\<lparr>b_age := 0\<rparr> = b0\<lparr>b_age := 0\<rparr>"
  unfolding bond_body_def Let_def
  by (auto dest!: ebind_Inr split: prod.splits)

lemma bond_loop_ages:
  "bond_loop b_idx bs ps T fx fy tb = Inr (bs', fx', fy', tb') \<Longrightarrow>
   map (\<lambda>b. b\<lparr>b_age := 0\<rparr>) bs' = map (\<lambda>b. b\<lparr>b_age := 0\<rparr>) bs"
proof (induction bs arbitrary: b_idx fx fy tb bs' fx' fy' tb')
  case Nil
  then show ?case by simp
next
  case (Cons b0 bs)
  from Cons.prems obtain b fx1 fy1 tb1 bs1 where
    b: "bond_body b_idx b0 ps T fx fy tb = Inr (b, fx1, fy1, tb1)"
    and l: "bond_loop (Suc b_idx) bs ps T fx1 fy1 tb1 = Inr (bs1, fx', fy', tb')"
    and e: "bs' = b # bs1"
    by (auto split: sum.splits)
  from Cons.IH [OF l] bond_body_ages [OF b] e show ?case by simp
qed

lemma break_loop_reachable:
  "break_loop idxs bs ps = Inr (bs', ps') \<Longrightarrow> reachable ps bs \<Longrightarrow> reachable ps' bs'"
proof (induction idxs arbitrary: bs ps)
  case Nil
  then show ?case by simp
next
  case (Cons b_idx rest)
  from Cons.prems(1) obtain b :: bond and bs1 ps1 where
    r: "remove_bond_between (b_i b) (b_j b) bs ps = Inr (bs1, ps1)"
    and l: "break_loop rest bs1 ps1 = Inr (bs', ps')"
    by (auto split: sum.splits dest!: ebind_Inr)
  from Cons.prems(2) r have "reachable ps1 bs1" by (rule reachable.removal)
  with l show ?case by (rule Cons.IH)
qed

lemma step_forces_reachable:
  assumes "step_forces sim g = Inr (forces, sim', g')"
    and "reachable (sim_particles sim) (sim_bonds sim)"
  shows "reachable (sim_particles sim') (sim_bonds sim')"
proof -
  from assms(1) obtain sg fx1 fy1 ps1 bs1 g1 bs2 fx2 fy2 tb bs3 ps3 where
    p: "pair_loop [0..<length (sim_particles sim)] sg (sim_temperature sim)
          (replicate (length (sim_particles sim)) 0.0, replicate (length (sim_particles sim)) 0.0,
           sim_particles sim, sim_bonds sim, g) = Inr (fx1, fy1, ps1, bs1, g1)"
    and b: "bond_loop 0 bs1 ps1 (sim_temperature sim) fx1 fy1 [] = Inr (bs2, fx2, fy2, tb)"
    and k: "break_loop (rev tb) bs2 ps1 = Inr (bs3, ps3)"
    and s: "sim_particles sim' = ps3" "sim_bonds sim' = bs3"
    unfolding step_forces_def Let_def
    by (auto dest!: ebind_Inr split: prod.splits)
  from p assms(2) have "reachable ps1 bs1" by (rule pair_loop_reachable)
  then have "reachable ps1 bs2" using bond_loop_ages [OF b] by (rule reachable.ageing)
  with k have "reachable ps3 bs3" by (rule break_loop_reachable)
  with s show ?thesis by simp
qed

lemma create_of_type_unbonded:
  "list_all (\<lambda>p. p_bonds p = []) ps \<Longrightarrow>
   list_all (\<lambda>p. p_bonds p = []) (fst (create_of_type k t ps g))"
  by (induction k t ps g rule: create_of_type.induct)
     (simp_all add: create_one_def random_uniform_def Particle_def)

lemma create_types_unbonded:
  "list_all (\<lambda>p. p_bonds p = []) ps \<Longrightarrow>
   list_all (\<lambda>p. p_bonds p = []) (fst (create_types k t n ps g))"
  by (induction k t n ps g rule: create_types.induct)
     (simp_all add: create_of_type_unbonded)

lemma Simulation_init_reachable:
  "reachable (sim_particles (fst (Simulation_init ntypes n T g)))
             (sim_bonds (fst (Simulation_init ntypes n T g)))"
proof -
  have "list_all (\<lambda>p. p_bonds p = []) (fst (create_types ntypes 0 n [] g))"
    by (rule create_types_unbonded) simp
  then show ?thesis
    by (simp add: Simulation_init_def split_def reachable.start)
qed

lemma integrate_kick_motion:
  "integrate_kick i ps forces = Inr ps' \<Longrightarrow>
   map (\<lambda>p. (p_type p, p_bonds p)) ps' = map (\<lambda>p. (p_type p, p_bonds p)) ps"
proof (induction ps arbitrary: i ps')
  case Nil
  then show ?case by simp
next
  case (Cons p ps)
  from Cons.prems obtain rest where
    "integrate_kick (Suc i) ps forces = Inr rest" and "p_type (hd ps') = p_type p"
    and "p_bonds (hd ps') = p_bonds p" and "ps' = hd ps' # rest"
    by (auto simp: Let_def split_def dest!: ebind_Inr)
  with Cons.IH [of "Suc i" rest] show ?case
    by (metis (no_types, lifting) list.simps(9))
qed


lemma apply_langevin_motion:
  "apply_langevin p T n a g = Inr (p', g') \<Longrightarrow> p_type p' = p_type p \<and> p_bonds p' = p_bonds p"
  unfolding apply_langevin_def Let_def
  by (auto dest!: ebind_Inr split: prod.splits)

lemma integrate_langevin_motion:
  "integrate_langevin ps T g = Inr (ps', g') \<Longrightarrow>
   map (\<lambda>p. (p_type p, p_bonds p)) ps' = map (\<lambda>p. (p_type p, p_bonds p)) ps"
proof (induction ps arbitrary: g ps')
  case Nil
  then show ?case by simp
next
  case (Cons p ps)
  from Cons.prems obtain p1 g1 rest where
    a: "apply_langevin p T (length (p_bonds p)) (if length (p_bonds p) = 0 then 0.0 else 1.5) g
          = Inr (p1, g1)"
    and l: "integrate_langevin ps T g1 = Inr (rest, g')" and e: "ps' = p1 # rest"
    by (auto simp: Let_def dest!: ebind_Inr split: prod.splits)
  from Cons.IH [OF l] apply_langevin_motion [OF a] e show ?case by simp
qed

lemma rescale_velocities_motion:
  "rescale_velocities ps T = Inr ps' \<Longrightarrow>
   map (\<lambda>p. (p_type p, p_bonds p)) ps' = map (\<lambda>p. (p_type p, p_bonds p)) ps"
  unfolding rescale_velocities_def Let_def
  by (auto dest!: ebind_Inr split: if_splits)

lemma integrate_move_motion:
  "p_type (integrate_move p) = p_type p \<and> p_bonds (integrate_move p) = p_bonds p"
  by (simp add: integrate_move_def Let_def)

lemma integrate_motion:
  assumes "integrate ps forces T g = Inr (ps', g')"
  shows "map (\<lambda>p. (p_type p, p_bonds p)) ps' = map (\<lambda>p. (p_type p, p_bonds p)) ps"
proof -
  from assms obtain ps1 ps2 g1 ps3 where
    k: "integrate_kick 0 ps forces = Inr ps1"
    and l: "integrate_langevin ps1 T g = Inr (ps2, g1)"
    and r: "rescale_velocities ps2 T = Inr ps3"
    and e: "ps' = map integrate_move ps3"
    unfolding integrate_def by (auto dest!: ebind_Inr split: prod.splits)
  have "map (\<lambda>p. (p_type p, p_bonds p)) ps' = map (\<lambda>p. (p_type p, p_bonds p)) ps3"
    by (simp add: e integrate_move_motion comp_def)
  with rescale_velocities_motion [OF r] integrate_langevin_motion [OF l]
    integrate_kick_motion [OF k]
  show ?thesis by simp
qed

lemma step_reachable:
  assumes "step sim g = Inr (sim', g')"
    and "reachable (sim_particles sim) (sim_bonds sim)"
  shows "reachable (sim_particles sim') (sim_bonds sim')"
proof -
  from assms(1) obtain forces sim1 g1 parts where
    f: "step_forces sim g = Inr (forces, sim1, g1)"
    and i: "integrate (sim_particles sim1) forces (sim_temperature sim1) g1 = Inr (parts, g')"
    and e: "sim' = sim1\<lparr>sim_particles := parts\<rparr>"
    unfolding step_def by (auto dest!: ebind_Inr split: prod.splits)
  from f assms(2) have "reachable (sim_particles sim1) (sim_bonds sim1)"
    by (rule step_forces_reachable)
  then have "reachable parts (sim_bonds sim1)"
    using integrate_motion [OF i] by (rule reachable.motion)
  with e show ?thesis by simp
qed

text \<open>When the integrator raises in its Langevin loop, the particles keep the velocities
  its first loop gave them: that state is reachable as well.\<close>

lemma integrate_kick_reachable:
  "integrate_kick 0 ps forces = Inr ps' \<Longrightarrow> reachable ps bs \<Longrightarrow> reachable ps' bs"
  using integrate_kick_motion reachable.motion by blast

lemma append_bond_lengths:
  assumes "append_bond i j b ps bs = (ps', bs')" and "i \<noteq> j"
    and "i < length ps" and "j < length ps"
  shows "length (p_bonds (ps' ! i)) = Suc (length (p_bonds (ps ! i)))"
    and "length (p_bonds (ps' ! j)) = Suc (length (p_bonds (ps ! j)))"
  using assms by (auto simp: append_bond_def Let_def)

subsection \<open>A step() that leaves a particle above its dynamic maximum\<close>

text \<open>The run from \<open>sim_b\<close>, call by call.\<close>

lemma sim_b_init:
  "Simulation_init 1 3 0.5
     (0.125 ## 0.125 ## 0.5 ## 0.5 ## 0.15 ## 0.125 ## 0.5 ## 0.5 ##
      0.1 ## 0.125 ## 0.5 ## 0.5 ## g) = (sim_b, g)"
  by (simp add: Simulation_init_def sim_b_def create_one_def random_uniform_def
      numeral_3_eq_3 WORLD_WIDTH_def WORLD_HEIGHT_def)

lemma sim_b_fields:
  "sim_particles sim_b = [pb0, pb1, pb2]"
  "sim_bonds sim_b = []" "sim_temperature sim_b = 0.5"
  "sim_grid sim_b = grid_empty"
  by (simp_all add: sim_b_def)

lemma sim_b_grid:
  "insert_all 0 [pb0, pb1, pb2]
     (grid_clear grid_empty)
   = Inr grid_filled"
  by (simp add: Particle_def grid_clear_def grid_insert_def cell_coord_def ebind_simps
      numeral_2_eq_2)

lemma sim_b_row0:
  "pair_row 0 grid_filled 0.5
     ([0, 0, 0], [0, 0, 0], [pb0, pb1, pb2], [], sconst 0)
   = Inr ([0, 3 / 10, - (3 / 10)], [0, 0, 0],
          [pb0\<lparr>p_bonds := [2, 1]\<rparr>, pb1\<lparr>p_bonds := [0]\<rparr>, pb2\<lparr>p_bonds := [0]\<rparr>],
          [(Bond 0 2 Covalent 3 18)\<lparr>b_dipole := (1, 0)\<rparr>,
           (Bond 0 1 Covalent 3 18)\<lparr>b_dipole := (- 1, 0)\<rparr>], sconst 0)"
  by (simp add: row_defs phys_consts react_defs chem_defs chem_consts sqrt_400
      cong: ebind_weak_cong)

lemma sim_b_row1:
  "pair_row 1 grid_filled 0.5
     ([0, 3 / 10, - (3 / 10)], [0, 0, 0],
      [pb0\<lparr>p_bonds := [2, 1]\<rparr>, pb1\<lparr>p_bonds := [0]\<rparr>, pb2\<lparr>p_bonds := [0]\<rparr>],
      [(Bond 0 2 Covalent 3 18)\<lparr>b_dipole := (1, 0)\<rparr>,
       (Bond 0 1 Covalent 3 18)\<lparr>b_dipole := (- 1, 0)\<rparr>], sconst 0)
   = Inr ([0, 9 / 20, - (9 / 20)], [0, 0, 0],
          [pb0\<lparr>p_bonds := [2, 1]\<rparr>, pb1\<lparr>p_bonds := [0]\<rparr>, pb2\<lparr>p_bonds := [0]\<rparr>],
          [(Bond 0 2 Covalent 3 18)\<lparr>b_dipole := (1, 0)\<rparr>,
           (Bond 0 1 Covalent 3 18)\<lparr>b_dipole := (- 1, 0)\<rparr>], sconst 0)"
  by (simp add: row_defs phys_consts react_defs chem_defs chem_consts sqrt_1600
      cong: ebind_weak_cong)

lemma sim_b_row2:
  "pair_row 2 grid_filled 0.5
     ([0, 9 / 20, - (9 / 20)], [0, 0, 0],
      [pb0\<lparr>p_bonds := [2, 1]\<rparr>, pb1\<lparr>p_bonds := [0]\<rparr>, pb2\<lparr>p_bonds := [0]\<rparr>],
      [(Bond 0 2 Covalent 3 18)\<lparr>b_dipole := (1, 0)\<rparr>,
       (Bond 0 1 Covalent 3 18)\<lparr>b_dipole := (- 1, 0)\<rparr>], sconst 0)
   = Inr ([0, 9 / 20, - (9 / 20)], [0, 0, 0],
          [pb0\<lparr>p_bonds := [2, 1]\<rparr>, pb1\<lparr>p_bonds := [0]\<rparr>, pb2\<lparr>p_bonds := [0]\<rparr>],
          [(Bond 0 2 Covalent 3 18)\<lparr>b_dipole := (1, 0)\<rparr>,
           (Bond 0 1 Covalent 3 18)\<lparr>b_dipole := (- 1, 0)\<rparr>], sconst 0)"
  by (simp add: row_defs getitem_def ebind_simps Particle_def)

lemma sim_b_pairs:
  "pair_loop [0, 1, 2] grid_filled 0.5
     ([0, 0, 0], [0, 0, 0], [pb0, pb1, pb2], [], sconst 0)
   = Inr ([0, 9 / 20, - (9 / 20)], [0, 0, 0],
          [pb0\<lparr>p_bonds := [2, 1]\<rparr>, pb1\<lparr>p_bonds := [0]\<rparr>, pb2\<lparr>p_bonds := [0]\<rparr>],
          [(Bond 0 2 Covalent 3 18)\<lparr>b_dipole := (1, 0)\<rparr>,
           (Bond 0 1 Covalent 3 18)\<lparr>b_dipole := (- 1, 0)\<rparr>], sconst 0)"
  by (simp only: pair_loop.simps sim_b_row0 sim_b_row1 sim_b_row2 sum.case)

lemma sim_b_ledger_pass:
  "bond_loop 0 [(Bond 0 2 Covalent 3 18)\<lparr>b_dipole := (1, 0)\<rparr>,
                (Bond 0 1 Covalent 3 18)\<lparr>b_dipole := (- 1, 0)\<rparr>]
     [pb0\<lparr>p_bonds := [2, 1]\<rparr>, pb1\<lparr>p_bonds := [0]\<rparr>, pb2\<lparr>p_bonds := [0]\<rparr>] 0.5
     [0, 9 / 20, - (9 / 20)] [0, 0, 0] []
   = Inr ([(Bond 0 2 Covalent 3 18)\<lparr>b_dipole := (1, 0), b_age := 1\<rparr>,
           (Bond 0 1 Covalent 3 18)\<lparr>b_dipole := (- 1, 0), b_age := 1\<rparr>],
          [0, 181 / 2500, - (181 / 2500)], [0, 0, 0], [])"
  by (simp add: bond_pass_defs phys_consts chem_defs chem_consts sqrt_400
      cong: ebind_weak_cong)

lemma sim_b_geometry:
  "apply_lowT_geometry_forces
     [pb0\<lparr>p_bonds := [2, 1]\<rparr>, pb1\<lparr>p_bonds := [0]\<rparr>, pb2\<lparr>p_bonds := [0]\<rparr>]
     [0, 181 / 2500, - (181 / 2500)] [0, 0, 0] 0.5
   = Inr ([0, 181 / 2500, - (181 / 2500)], [0, 0, 0])"
  by (simp add: apply_lowT_geometry_forces_def lowT_body_def target_angles_def bond_vec_def
      angle_push_def getitem_def ebind_simps wrap_def WORLD_WIDTH_def WORLD_HEIGHT_def
      Particle_def sqrt_400 cong: ebind_weak_cong)

lemma sim_b_aux:
  "replicate (length [pb0, pb1, pb2]) (0.0::real) = [0, 0, 0]"
  "[0..<length [pb0, pb1, pb2]] = [0, 1, 2]"
  "(0.5::real) < 1.0"
  by (simp_all add: numeral_3_eq_3 upt_rec)

lemma sim_b_step_forces:
  "step_forces sim_b (sconst 0)
   = Inr ([(0, 0), (181 / 2500, 0), (- (181 / 2500), 0)], sim_b_stepped, sconst 0)"
proof -
  have "step_forces sim_b (sconst 0)
   = Inr ([(0, 0), (181 / 2500, 0), (- (181 / 2500), 0)],
          sim_b\<lparr>sim_particles := [pb0\<lparr>p_bonds := [2, 1]\<rparr>, pb1\<lparr>p_bonds := [0]\<rparr>, pb2\<lparr>p_bonds := [0]\<rparr>],
                sim_bonds := [(Bond 0 2 Covalent 3 18)\<lparr>b_dipole := (1, 0), b_age := 1\<rparr>,
                              (Bond 0 1 Covalent 3 18)\<lparr>b_dipole := (- 1, 0), b_age := 1\<rparr>],
                sim_grid := grid_filled\<rparr>, sconst 0)"
    by (simp only: step_forces_def Let_def sim_b_fields sim_b_aux sim_b_grid ebind_simps
        sim_b_pairs prod.case sim_b_ledger_pass rev.simps break_loop.simps if_True
        sim_b_geometry zip_Cons_Cons zip_Nil)
  then show ?thesis by (simp add: sim_b_def sim_b_stepped_def)
qed

lemma sim_b_stepped_valence:
  "dynamic_max_bonds 0 (sim_particles sim_b_stepped) (sim_bonds sim_b_stepped) = Inr 1"
  "length (p_bonds (sim_particles sim_b_stepped ! 0)) = 2"
  by (simp_all add: sim_b_stepped_def chem_defs chem_consts)

text \<open>
  Claim C5 says that in every reachable state every particle's bond count is at most
  dynamic\_max\_bonds evaluated at that state. \<open>Simulation(1, 3, 0.5)\<close> can build
  \<open>sim_b\<close>. In its first step() particle 0 forms a triple bond with particle 2 (its
  deficit drops to 1, its dynamic maximum to 2) and then, being below that maximum, a
  triple bond with particle 1. The second bond fills its shell, so that at the state
  step() hands to the integrator its dynamic maximum is 1, with 2 bonds in its list.
\<close>

theorem valence_bound_counterexample:
  "Simulation_init 1 3 0.5
     (0.125 ## 0.125 ## 0.5 ## 0.5 ## 0.15 ## 0.125 ## 0.5 ## 0.5 ##
      0.1 ## 0.125 ## 0.5 ## 0.5 ## sconst 0) = (sim_b, sconst 0) \<and>
   step_forces sim_b (sconst 0)
     = Inr ([(0, 0), (181 / 2500, 0), (- (181 / 2500), 0)], sim_b_stepped, sconst 0) \<and>
   dynamic_max_bonds 0 (sim_particles sim_b_stepped) (sim_bonds sim_b_stepped) = Inr 1 \<and>
   length (p_bonds (sim_particles sim_b_stepped ! 0)) = 2"
  using sim_b_init [of "sconst 0"] sim_b_step_forces sim_b_stepped_valence by simp

text \<open>
  Claim C5, amended. dynamic\_max\_bonds gates the formation of a bond and is evaluated
  before the bond exists: try\_form\_bond forms a bond between two different particles
  only if each endpoint's bond count is below its dynamic maximum at that moment, so
  right after the formation each endpoint's count is at most the dynamic maximum it had
  before. Hence in every reachable state (after any sequence of step() calls and of
  chemistry operations on two different particles) every particle's bond count is at most
  5, the cap of dynamic\_max\_bonds. It can exceed dynamic\_max\_bonds evaluated at the
  state itself, as the run above shows.
\<close>

theorem valence_cap_invariant:
  "(reachable ps bs \<longrightarrow> valence_capped ps) \<and>
   (i \<noteq> j \<and> try_form_bond i j ps bs T g = Inr (True, ps', bs', g') \<longrightarrow>
      (\<exists>mi mj. dynamic_max_bonds i ps bs = Inr mi \<and> dynamic_max_bonds j ps bs = Inr mj \<and>
         int (length (p_bonds (ps' ! i))) \<le> mi \<and> int (length (p_bonds (ps' ! j))) \<le> mj \<and>
         mi \<le> 5 \<and> mj \<le> 5))"
proof (intro conjI impI)
  assume "reachable ps bs"
  then show "valence_capped ps" by (rule reachable_capped)
next
  assume a: "i \<noteq> j \<and> try_form_bond i j ps bs T g = Inr (True, ps', bs', g')"
  then obtain mi mj b where h: "i < length ps" "j < length ps"
    "dynamic_max_bonds i ps bs = Inr mi" "dynamic_max_bonds j ps bs = Inr mj"
    "int (length (p_bonds (ps ! i))) < mi" "int (length (p_bonds (ps ! j))) < mj"
    "append_bond i j b ps bs = (ps', bs')"
    by (auto elim!: try_form_bond_True)
  from a have ne: "i \<noteq> j" by simp
  from append_bond_lengths [OF h(7) ne h(1,2)] h(5,6)
  have "int (length (p_bonds (ps' ! i))) \<le> mi" "int (length (p_bonds (ps' ! j))) \<le> mj"
    by simp_all
  moreover from h(3,4) have "mi \<le> 5" "mj \<le> 5" by (auto dest: dynamic_max_bonds_le)
  ultimately show "\<exists>mi mj. dynamic_max_bonds i ps bs = Inr mi \<and>
         dynamic_max_bonds j ps bs = Inr mj \<and>
         int (length (p_bonds (ps' ! i))) \<le> mi \<and> int (length (p_bonds (ps' ! j))) \<le> mj \<and>
         mi \<le> 5 \<and> mj \<le> 5"
    using h(3,4) by blast
qed

lemma sim_b_stepped_reachable:
  "reachable (sim_particles sim_b_stepped) (sim_bonds sim_b_stepped)"
proof -
  have "reachable (sim_particles sim_b) (sim_bonds sim_b)"
    using Simulation_init_reachable
      [of 1 3 "0.5" "0.125 ## 0.125 ## 0.5 ## 0.5 ## 0.15 ## 0.125 ## 0.5 ## 0.5 ##
                     0.1 ## 0.125 ## 0.5 ## 0.5 ## sconst 0"]
    by (simp only: sim_b_init fst_conv)
  with sim_b_step_forces show ?thesis by (rule step_forces_reachable)
qed

lemma form_0_2_in_sim_b:
  "try_form_bond 0 2 (sim_particles sim_b) (sim_bonds sim_b) 0.5 (sconst 0)
   = Inr (True,
          [pb0\<lparr>p_bonds := [2]\<rparr>, pb1,
           pb2\<lparr>p_bonds := [0]\<rparr>],
          [(Bond 0 2 Covalent 3 18)\<lparr>b_dipole := (1, 0)\<rparr>], sconst 0)"
  by (simp add: sim_b_def react_defs chem_defs chem_consts sqrt_400 cong: ebind_weak_cong)

theorem valence_cap_invariant_witness:
  "reachable (sim_particles sim_b_stepped) (sim_bonds sim_b_stepped) \<and>
   valence_capped (sim_particles sim_b_stepped) \<and>
   (0::nat) \<noteq> 2 \<and>
   try_form_bond 0 2 (sim_particles sim_b) (sim_bonds sim_b) 0.5 (sconst 0)
   = Inr (True,
          [pb0\<lparr>p_bonds := [2]\<rparr>, pb1,
           pb2\<lparr>p_bonds := [0]\<rparr>],
          [(Bond 0 2 Covalent 3 18)\<lparr>b_dipole := (1, 0)\<rparr>], sconst 0) \<and>
   (\<exists>mi mj. dynamic_max_bonds 0 (sim_particles sim_b) (sim_bonds sim_b) = Inr mi \<and>
      dynamic_max_bonds 2 (sim_particles sim_b) (sim_bonds sim_b) = Inr mj \<and>
      int (length (p_bonds ([pb0\<lparr>p_bonds := [2]\<rparr>, pb1,
           pb2\<lparr>p_bonds := [0]\<rparr>] ! 0))) \<le> mi \<and>
      int (length (p_bonds ([pb0\<lparr>p_bonds := [2]\<rparr>, pb1,
           pb2\<lparr>p_bonds := [0]\<rparr>] ! 2))) \<le> mj \<and>
      mi \<le> 5 \<and> mj \<le> 5)"
  using valence_cap_invariant
      [where ps = "sim_particles sim_b_stepped" and bs = "sim_bonds sim_b_stepped"]
    valence_cap_invariant
      [where ps = "sim_particles sim_b" and bs = "sim_bonds sim_b" and i = 0 and j = 2
         and T = "0.5" and g = "sconst 0" and g' = "sconst 0"
         and ps' = "[pb0\<lparr>p_bonds := [2]\<rparr>, pb1,
                     pb2\<lparr>p_bonds := [0]\<rparr>]"
         and bs' = "[(Bond 0 2 Covalent 3 18)\<lparr>b_dipole := (1, 0)\<rparr>]"]
    sim_b_stepped_reachable form_0_2_in_sim_b
  by simp

end
